theory Spec2Isabelle
  imports Main "HOL-Library.AList" "HOL-Library.Word"
begin

section \<open>The GitHub1s file system provider (github1sfs.ts)\<close>

text \<open>
  A shallow embedding of \<^verbatim>\<open>src/extensions/github1s/src/github1sfs.ts\<close>: the
  \<^verbatim>\<open>File\<close> and \<^verbatim>\<open>Directory\<close> nodes, \<^verbatim>\<open>entriesToMap\<close>, and the
  methods \<^verbatim>\<open>_lookup\<close>, \<^verbatim>\<open>_lookupAsDirectory\<close>, \<^verbatim>\<open>_lookupAsFile\<close>,
  \<^verbatim>\<open>stat\<close>, \<^verbatim>\<open>readDirectory\<close> and \<^verbatim>\<open>readFile\<close> of \<^verbatim>\<open>GitHub1sFS\<close>.

  Conventions of the embedding.
  \<^item> A JavaScript string is a \<^typ>\<open>string\<close> holding its UTF-8 bytes; a
    \<^verbatim>\<open>Uint8Array\<close> is a list of 8-bit words.
  \<^item> A \<^verbatim>\<open>Map\<close> is an association list in insertion order; \<^verbatim>\<open>set\<close> is
    \<^const>\<open>AList.update\<close> (a key that is present keeps its position) and
    \<^verbatim>\<open>get\<close> is \<^const>\<open>map_of\<close>.
  \<^item> A rejected promise or a thrown error is \<^term>\<open>Inl e\<close>, a fulfilled one
    \<^term>\<open>Inr v\<close>; the state reached is returned in both cases, since a rejection
    does not undo the mutations made before it.
  \<^item> The tree owns its nodes and a node, once created, is never detached from its
    parent. A reference to a node is therefore modelled by the node's address (the list
    of names leading to it from the root) together with the node's content as last read.
  \<^item> \<^verbatim>\<open>readDirectory\<close> calls \<^verbatim>\<open>_lookupAsDirectory\<close>, and \<^verbatim>\<open>_lookup\<close>
    calls \<^verbatim>\<open>readDirectory\<close> on a directory whose entries are null. Whether this
    recursion ends depends on the locator parser, so \<^verbatim>\<open>readDirectory\<close> takes a
    bound on the depth of that nesting. The result is \<^term>\<open>None\<close> when the bound is
    exceeded; a promise that never settles is \<^term>\<open>None\<close> for every bound, and a result
    reached within a bound is the result for every larger one.
  \<^item> The timestamps \<^verbatim>\<open>ctime\<close> and \<^verbatim>\<open>mtime\<close> (\<^verbatim>\<open>Date.now()\<close>) are left out.
  \<^item> The field \<^verbatim>\<open>calls\<close> of the state is not in the source: it records, in
    order, every call made to a remote collaborator, so that theorems can count them.
  \<^item> \<^verbatim>\<open>reuseable\<close> (imported from \<^verbatim>\<open>./util\<close>) wraps \<^verbatim>\<open>readDirectory\<close> and
    \<^verbatim>\<open>readFile\<close>. The functions \<open>readDirectory\<close> and \<open>readFile\<close> below are the
    wrapped ones, each call running to its end before the next; the wrapper, whose code
    is not part of the file, is modelled apart, from the specification.
\<close>

subsection \<open>Data model\<close>

type_synonym bytes = "8 word list"

text \<open>The parts of a \<^verbatim>\<open>vscode.Uri\<close> that the provider reads or sets.\<close>

record Uri =
  authority :: string
  uri_path :: string

text \<open>\<^verbatim>\<open>UriState\<close>, the result of \<^verbatim>\<open>parseUri\<close>.\<close>

record UriState =
  owner :: string
  repo :: string
  branch :: string
  path :: string
  uri :: Uri

text \<open>
  \<^verbatim>\<open>File\<close> and \<^verbatim>\<open>Directory\<close> with the fields \<^verbatim>\<open>uri\<close>, \<^verbatim>\<open>name\<close>,
  \<^verbatim>\<open>sha\<close>, \<^verbatim>\<open>size\<close> and then \<^verbatim>\<open>data\<close> or \<^verbatim>\<open>entries\<close>. A size that
  the options give as \<^verbatim>\<open>undefined\<close> is \<^term>\<open>None\<close>; \<^verbatim>\<open>data === null\<close> and
  \<^verbatim>\<open>entries === null\<close> are \<^term>\<open>None\<close>.
\<close>

datatype Entry =
    File Uri string string "nat option" "bytes option"
  | Directory Uri string string "nat option" "(string \<times> Entry) list option"

datatype FileType = FileType_File | FileType_Directory

datatype FileSystemError =
    FileNotFound Uri
  | FileNotADirectory Uri
  | FileIsADirectory Uri
  | RemoteFailure string
  | TypeError

text \<open>The calls to remote collaborators, as recorded in the state.\<close>

datatype RemoteCall =
    ApolloQuery string string string
  | ReadGitHubDirectory UriState
  | ReadGitHubFile UriState string

record FsState =
  root :: "Entry option"
  calls :: "RemoteCall list"

text \<open>A reference to a node: its address and its content as last read.\<close>

type_synonym Ref = "string list \<times> Entry"

text \<open>
  A settled promise with the state reached, or \<^term>\<open>None\<close> when it does not settle
  within the bound.
\<close>

type_synonym 'a promise = "((FileSystemError + 'a) \<times> FsState) option"

subsection \<open>The tree as a store\<close>

primrec name_of :: "Entry \<Rightarrow> string" where
  "name_of (File u n sh sz d) = n"
| "name_of (Directory u n sh sz es) = n"

primrec is_Directory :: "Entry \<Rightarrow> bool" where
  "is_Directory (File u n sh sz d) = False"
| "is_Directory (Directory u n sh sz es) = True"

text \<open>The node at an address below a node.\<close>

fun node_at :: "Entry \<Rightarrow> string list \<Rightarrow> Entry option" where
  "node_at e [] = Some e"
| "node_at (Directory u n sh sz (Some m)) (p # ps) =
     (case map_of m p of None \<Rightarrow> None | Some c \<Rightarrow> node_at c ps)"
| "node_at (Directory u n sh sz None) (p # ps) = None"
| "node_at (File u n sh sz d) (p # ps) = None"

definition deref :: "FsState \<Rightarrow> string list \<Rightarrow> Entry option" where
  "deref s a = (case root s of None \<Rightarrow> None | Some r \<Rightarrow> node_at r a)"

text \<open>The assignment \<^verbatim>\<open>parent.entries = es\<close> to the directory at an address.\<close>

fun set_entries_at :: "string list \<Rightarrow> (string \<times> Entry) list option \<Rightarrow> Entry \<Rightarrow> Entry" where
  "set_entries_at [] es (Directory u n sh sz old) = Directory u n sh sz es"
| "set_entries_at [] es (File u n sh sz d) = File u n sh sz d"
| "set_entries_at (p # ps) es (Directory u n sh sz (Some m)) =
     (case map_of m p of
        None \<Rightarrow> Directory u n sh sz (Some m)
      | Some c \<Rightarrow> Directory u n sh sz (Some (AList.update p (set_entries_at ps es c) m)))"
| "set_entries_at (p # ps) es (Directory u n sh sz None) = Directory u n sh sz None"
| "set_entries_at (p # ps) es (File u n sh sz d) = File u n sh sz d"

text \<open>The assignment \<^verbatim>\<open>file.data = d\<close> to the file at an address.\<close>

fun set_data_at :: "string list \<Rightarrow> bytes option \<Rightarrow> Entry \<Rightarrow> Entry" where
  "set_data_at [] d (File u n sh sz old) = File u n sh sz d"
| "set_data_at [] d (Directory u n sh sz es) = Directory u n sh sz es"
| "set_data_at (p # ps) d (Directory u n sh sz (Some m)) =
     (case map_of m p of
        None \<Rightarrow> Directory u n sh sz (Some m)
      | Some c \<Rightarrow> Directory u n sh sz (Some (AList.update p (set_data_at ps d c) m)))"
| "set_data_at (p # ps) d (Directory u n sh sz None) = Directory u n sh sz None"
| "set_data_at (p # ps) d (File u n sh sz old) = File u n sh sz old"

definition assign_entries :: "string list \<Rightarrow> (string \<times> Entry) list option \<Rightarrow> FsState \<Rightarrow> FsState" where
  "assign_entries a es s = s\<lparr>root := map_option (set_entries_at a es) (root s)\<rparr>"

definition assign_data :: "string list \<Rightarrow> bytes option \<Rightarrow> FsState \<Rightarrow> FsState" where
  "assign_data a d s = s\<lparr>root := map_option (set_data_at a d) (root s)\<rparr>"

text \<open>
  The call \<^verbatim>\<open>parent.entries.set(k, v)\<close> on the directory at an address. (It follows the
  assignment of a new map to \<^verbatim>\<open>parent.entries\<close>, so entries that are null do not
  arise; the state is then left as it is.)
\<close>

definition entries_set :: "string list \<Rightarrow> string \<Rightarrow> Entry \<Rightarrow> FsState \<Rightarrow> FsState" where
  "entries_set a k v s =
     (case deref s a of
        Some (Directory u n sh sz (Some m)) \<Rightarrow> assign_entries a (Some (AList.update k v m)) s
      | _ \<Rightarrow> s)"

definition record_call :: "RemoteCall \<Rightarrow> FsState \<Rightarrow> FsState" where
  "record_call c s = s\<lparr>calls := calls s @ [c]\<rparr>"

subsection \<open>Collaborators\<close>

text \<open>
  What a text field of the GraphQL response can hold: nothing, \<^verbatim>\<open>null\<close>, or a
  string. \<^verbatim>\<open>TextEncoder.encode\<close> takes \<^verbatim>\<open>undefined\<close> to the empty array and
  converts any other value to a string first, so \<^verbatim>\<open>null\<close> gives the bytes of
  \<^verbatim>\<open>"null"\<close>.
\<close>

datatype JsText = Undefined | Null | Text string

primrec textEncoder_encode :: "JsText \<Rightarrow> bytes" where
  "textEncoder_encode Undefined = []"
| "textEncoder_encode Null = map of_char ''null''"
| "textEncoder_encode (Text t) = map of_char t"

text \<open>
  An entry of the GraphQL response (\<^verbatim>\<open>type\<close>, \<^verbatim>\<open>name\<close>, \<^verbatim>\<open>oid\<close>,
  \<^verbatim>\<open>object\<close>) and its object (\<^verbatim>\<open>byteSize\<close>, \<^verbatim>\<open>isBinary\<close>, \<^verbatim>\<open>text\<close>,
  \<^verbatim>\<open>entries\<close>); a field that is missing or null is \<^term>\<open>None\<close>.
\<close>

datatype GqlEntry =
    GqlEntry (gql_type: string) (gql_name: string) (gql_oid: string) (gql_object: "GqlObject option")
  and GqlObject = GqlObject "nat option" "bool option" JsText "GqlEntry list option"

text \<open>
  An item of \<^verbatim>\<open>data.tree\<close> in the REST response. The answer has the type
  \<^verbatim>\<open>any\<close>, so a fulfilled promise of \<^verbatim>\<open>readGitHubDirectory\<close> need not hold a
  well-formed tree: the answer is \<^term>\<open>None\<close> when \<^verbatim>\<open>data\<close> or \<^verbatim>\<open>data.tree\<close> is
  missing (\<^verbatim>\<open>data.tree.map\<close> is then a TypeError), and an item of the array is
  \<^term>\<open>None\<close> when it is null or undefined (\<^verbatim>\<open>item.type\<close> is then a TypeError).
\<close>

record RestItem =
  item_path :: string
  item_type :: string
  item_sha :: string
  item_size :: "nat option"

text \<open>
  The functions the provider imports: \<^verbatim>\<open>parseUri\<close>, \<^verbatim>\<open>isGraphQLEnabled\<close>,
  \<^verbatim>\<open>readGitHubDirectory\<close> and \<^verbatim>\<open>readGitHubFile\<close> from \<^verbatim>\<open>./api\<close>,
  \<^verbatim>\<open>apolloClient.query\<close> from \<^verbatim>\<open>./client\<close> (given owner, repo and expression,
  it yields \<^verbatim>\<open>response.data?.repository?.object?.entries\<close>), \<^verbatim>\<open>Uri.joinPath\<close>
  from \<^verbatim>\<open>vscode\<close> and \<^verbatim>\<open>toUint8Array\<close> from \<^verbatim>\<open>js-base64\<close>. Their code is
  not part of the file, so they are parameters; each call may pass different ones, as
  the remote answers may change between calls.
\<close>

record Env =
  parseUri :: "Uri \<Rightarrow> FileSystemError + UriState"
  joinPath :: "Uri \<Rightarrow> string \<Rightarrow> Uri"
  isGraphQLEnabled :: bool
  apolloQuery :: "string \<Rightarrow> string \<Rightarrow> string \<Rightarrow> FileSystemError + GqlEntry list option"
  readGitHubDirectory :: "UriState \<Rightarrow> FileSystemError + RestItem option list option"
  readGitHubFile :: "UriState \<Rightarrow> string \<Rightarrow> FileSystemError + string"
  decodeBase64 :: "string \<Rightarrow> FileSystemError + bytes"

subsection \<open>Directory: getNameTypePairs\<close>

definition getNameTypePairs :: "(string \<times> Entry) list option \<Rightarrow> (string \<times> FileType) list" where
  "getNameTypePairs es =
     map (\<lambda>(k, item). (name_of item, if is_Directory item then FileType_Directory else FileType_File))
       (case es of None \<Rightarrow> [] | Some m \<Rightarrow> m)"

subsection \<open>entriesToMap\<close>

text \<open>
  \<^verbatim>\<open>entriesToMap\<close>, the loop of its \<^verbatim>\<open>forEach\<close> (with the map built so far) and the
  body of that loop, which creates the node of one item.
\<close>

fun entriesToMap :: "(Uri \<Rightarrow> string \<Rightarrow> Uri) \<Rightarrow> GqlEntry list option \<Rightarrow> Uri \<Rightarrow> (string \<times> Entry) list option"
  and entries_forEach :: "(Uri \<Rightarrow> string \<Rightarrow> Uri) \<Rightarrow> GqlEntry list \<Rightarrow> Uri \<Rightarrow> (string \<times> Entry) list \<Rightarrow> (string \<times> Entry) list"
  and item_entry :: "(Uri \<Rightarrow> string \<Rightarrow> Uri) \<Rightarrow> GqlEntry \<Rightarrow> Uri \<Rightarrow> Entry"
where
  "entriesToMap jp None u = None"
| "entriesToMap jp (Some items) u = Some (entries_forEach jp items u [])"
| "entries_forEach jp [] u m = m"
| "entries_forEach jp (item # rest) u m =
     entries_forEach jp rest u
       (AList.update (gql_name item) (item_entry jp item u) m)"
| "item_entry jp (GqlEntry ty nm oid None) u =
     (if ty = ''tree''
      then Directory u nm oid (Some 0) (entriesToMap jp None (jp u nm))
      else File u nm oid None (Some (textEncoder_encode Undefined)))"
| "item_entry jp (GqlEntry ty nm oid (Some (GqlObject byteSize isBinary text es))) u =
     (if ty = ''tree''
      then Directory u nm oid (Some 0) (entriesToMap jp es (jp u nm))
      else File u nm oid byteSize
             (if isBinary = Some True then None else Some (textEncoder_encode text)))"

text \<open>
  The optional chains of the loop body, as functions of the item:
  \<^verbatim>\<open>item.object?.isBinary\<close> (whether it is truthy), \<^verbatim>\<open>item?.object?.text\<close> and
  \<^verbatim>\<open>item.object?.byteSize\<close>.
\<close>

definition item_isBinary :: "GqlEntry \<Rightarrow> bool" where
  "item_isBinary item =
     (case gql_object item of None \<Rightarrow> False | Some (GqlObject byteSize isBinary text es) \<Rightarrow> isBinary = Some True)"

definition item_text :: "GqlEntry \<Rightarrow> JsText" where
  "item_text item =
     (case gql_object item of None \<Rightarrow> Undefined | Some (GqlObject byteSize isBinary text es) \<Rightarrow> text)"

definition item_byteSize :: "GqlEntry \<Rightarrow> nat option" where
  "item_byteSize item =
     (case gql_object item of None \<Rightarrow> None | Some (GqlObject byteSize isBinary text es) \<Rightarrow> byteSize)"

text \<open>
  The bulk response read as the maps built from it read it. The entry that a list leaves
  under a name is the last one of that name, since a later \<^verbatim>\<open>map.set\<close> replaces an
  earlier one. The entries inlined below an entry are those of its object when its type
  is \<^verbatim>\<open>tree\<close>. The entry at a relative path is found by descending through the
  inlined entries, at any depth.
\<close>

definition gql_named :: "GqlEntry list \<Rightarrow> string \<Rightarrow> GqlEntry option" where
  "gql_named items nm = List.find (\<lambda>item. gql_name item = nm) (rev items)"

definition gql_inlined :: "GqlEntry \<Rightarrow> GqlEntry list option" where
  "gql_inlined item =
     (if gql_type item = ''tree''
      then (case gql_object item of None \<Rightarrow> None | Some (GqlObject byteSize isBinary text es) \<Rightarrow> es)
      else None)"

fun gql_at :: "GqlEntry list \<Rightarrow> string list \<Rightarrow> GqlEntry option" where
  "gql_at items [] = None"
| "gql_at items [nm] = gql_named items nm"
| "gql_at items (nm # rest) =
     (case gql_named items nm of
        None \<Rightarrow> None
      | Some dir \<Rightarrow> (case gql_inlined dir of None \<Rightarrow> None | Some sub \<Rightarrow> gql_at sub rest))"

subsection \<open>GitHub1sFS: lookup\<close>

text \<open>\<^verbatim>\<open>String.prototype.split\<close> with a one-character separator.\<close>

fun split :: "char \<Rightarrow> string \<Rightarrow> string list" where
  "split c [] = [[]]"
| "split c (x # xs) =
     (if x = c then [] # split c xs
      else (case split c xs of [] \<Rightarrow> [[x]] | w # ws \<Rightarrow> (x # w) # ws))"

definition path_parts :: "string \<Rightarrow> string list" where
  "path_parts p = filter (\<lambda>part. part \<noteq> []) (split (CHR ''/'') p)"

text \<open>
  One round of the loop of \<^verbatim>\<open>_lookup\<close> up to the test of \<^verbatim>\<open>child\<close>: the child
  named \<^verbatim>\<open>part\<close> of \<^verbatim>\<open>entry\<close>. A file has none. A directory whose entries are
  null is first read with \<^verbatim>\<open>readDirectory\<close> (the parameter \<open>rd\<close>); the entries are
  then read again from the same node, and \<^verbatim>\<open>entry.entries.get\<close> is a TypeError when
  they are still null.
\<close>

definition child_of ::
  "(Uri \<Rightarrow> FsState \<Rightarrow> (string \<times> FileType) list promise) \<Rightarrow> Env \<Rightarrow> string list \<Rightarrow> Entry \<Rightarrow> string
     \<Rightarrow> FsState \<Rightarrow> Entry option promise" where
  "child_of rd env walked entry part s =
     (case entry of
        File u n sh sz d \<Rightarrow> Some (Inr None, s)
      | Directory u n sh sz es \<Rightarrow>
          (case es of
             Some m \<Rightarrow> Some (Inr (map_of m part), s)
           | None \<Rightarrow>
               (case rd (joinPath env u n) s of
                  None \<Rightarrow> None
                | Some (Inl e, s1) \<Rightarrow> Some (Inl e, s1)
                | Some (Inr listing, s1) \<Rightarrow>
                    (case deref s1 walked of
                       Some (Directory u' n' sh' sz' (Some m')) \<Rightarrow> Some (Inr (map_of m' part), s1)
                     | _ \<Rightarrow> Some (Inl TypeError, s1)))))"

fun lookup_loop ::
  "(Uri \<Rightarrow> FsState \<Rightarrow> (string \<times> FileType) list promise) \<Rightarrow> Env \<Rightarrow> UriState \<Rightarrow> bool \<Rightarrow> string list
     \<Rightarrow> string list \<Rightarrow> Entry \<Rightarrow> FsState \<Rightarrow> Ref option promise" where
  "lookup_loop rd env st silent [] walked entry s = Some (Inr (Some (walked, entry)), s)"
| "lookup_loop rd env st silent (part # rest) walked entry s =
     (case child_of rd env walked entry part s of
        None \<Rightarrow> None
      | Some (Inl e, s1) \<Rightarrow> Some (Inl e, s1)
      | Some (Inr None, s1) \<Rightarrow>
          (if \<not> silent then Some (Inl (FileNotFound (uri st)), s1) else Some (Inr None, s1))
      | Some (Inr (Some child), s1) \<Rightarrow> lookup_loop rd env st silent rest (walked @ [part]) child s1)"

text \<open>\<^verbatim>\<open>_lookup\<close>; the result \<^term>\<open>Inr None\<close> is \<^verbatim>\<open>undefined\<close>.\<close>

definition lookup_via ::
  "(Uri \<Rightarrow> FsState \<Rightarrow> (string \<times> FileType) list promise) \<Rightarrow> Env \<Rightarrow> UriState \<Rightarrow> bool
     \<Rightarrow> FsState \<Rightarrow> Ref option promise" where
  "lookup_via rd env st silent s =
     (let r = (case root s of
                 None \<Rightarrow> Directory ((uri st)\<lparr>uri_path := ''/''\<rparr>) [] [] (Some 0) None
               | Some r \<Rightarrow> r)
      in lookup_loop rd env st silent (path_parts (path st)) [] r (s\<lparr>root := Some r\<rparr>))"

text \<open>\<^verbatim>\<open>_lookupAsDirectory\<close> and \<^verbatim>\<open>_lookupAsFile\<close>.\<close>

definition lookupAsDirectory_via ::
  "(Uri \<Rightarrow> FsState \<Rightarrow> (string \<times> FileType) list promise) \<Rightarrow> Env \<Rightarrow> UriState \<Rightarrow> bool
     \<Rightarrow> FsState \<Rightarrow> Ref option promise" where
  "lookupAsDirectory_via rd env st silent s =
     (case lookup_via rd env st silent s of
        None \<Rightarrow> None
      | Some (Inl e, s1) \<Rightarrow> Some (Inl e, s1)
      | Some (Inr (Some (a, Directory u n sh sz es)), s1) \<Rightarrow>
          Some (Inr (Some (a, Directory u n sh sz es)), s1)
      | Some (Inr other, s1) \<Rightarrow>
          (if \<not> silent then Some (Inl (FileNotADirectory (uri st)), s1) else Some (Inr None, s1)))"

definition lookupAsFile_via ::
  "(Uri \<Rightarrow> FsState \<Rightarrow> (string \<times> FileType) list promise) \<Rightarrow> Env \<Rightarrow> UriState \<Rightarrow> bool
     \<Rightarrow> FsState \<Rightarrow> Ref option promise" where
  "lookupAsFile_via rd env st silent s =
     (case lookup_via rd env st silent s of
        None \<Rightarrow> None
      | Some (Inl e, s1) \<Rightarrow> Some (Inl e, s1)
      | Some (Inr (Some (a, File u n sh sz d)), s1) \<Rightarrow>
          Some (Inr (Some (a, File u n sh sz d)), s1)
      | Some (Inr other, s1) \<Rightarrow>
          (if \<not> silent then Some (Inl (FileIsADirectory (uri st)), s1) else Some (Inr None, s1)))"

subsection \<open>GitHub1sFS: readDirectory\<close>

text \<open>
  The callback that receives \<^verbatim>\<open>parent\<close> in \<^verbatim>\<open>readDirectory\<close>. Entries that are
  present are listed as they are. Otherwise the remote is asked, through GraphQL when
  it is enabled and through the REST endpoint when not. The GraphQL branch assigns
  \<^verbatim>\<open>parent.entries\<close> after it has checked the answer and built the map from it. The
  REST branch assigns an empty map to \<^verbatim>\<open>parent.entries\<close> as soon as the promise is
  fulfilled, and only then reads \<^verbatim>\<open>data.tree\<close> and fills the map.
  (\<^verbatim>\<open>_lookupAsDirectory\<close> returns directories only, so the case of a file is there
  for totality.)
\<close>

definition rest_entry :: "Uri \<Rightarrow> RestItem \<Rightarrow> Entry" where
  "rest_entry u item =
     (if item_type item = ''tree''
      then Directory u (item_path item) (item_sha item) (Some 0) None
      else File u (item_path item) (item_sha item) (item_size item) None)"

definition rest_fileType :: "RestItem \<Rightarrow> FileType" where
  "rest_fileType item = (if item_type item = ''tree'' then FileType_Directory else FileType_File)"

text \<open>
  The \<^verbatim>\<open>data.tree.map\<close> of the REST branch, item by item, with the pairs returned so
  far: each item is entered in \<^verbatim>\<open>parent.entries\<close> as it is reached, and an item that
  is null or undefined throws with the earlier ones already entered.
\<close>

fun rest_map ::
  "Uri \<Rightarrow> string list \<Rightarrow> RestItem option list \<Rightarrow> (string \<times> FileType) list \<Rightarrow> FsState
     \<Rightarrow> (FileSystemError + (string \<times> FileType) list) \<times> FsState" where
  "rest_map u a [] out s = (Inr out, s)"
| "rest_map u a (None # rest) out s = (Inl TypeError, s)"
| "rest_map u a (Some item # rest) out s =
     rest_map u a rest (out @ [(item_path item, rest_fileType item)])
       (entries_set a (item_path item) (rest_entry u item) s)"

definition readDirectory_parent ::
  "Env \<Rightarrow> Uri \<Rightarrow> UriState \<Rightarrow> Ref \<Rightarrow> FsState \<Rightarrow> (FileSystemError + (string \<times> FileType) list) \<times> FsState" where
  "readDirectory_parent env u st parent s =
     (case parent of
        (a, File fu fn sh sz d) \<Rightarrow> (Inl TypeError, s)
      | (a, Directory du dn sh sz (Some m)) \<Rightarrow> (Inr (getNameTypePairs (Some m)), s)
      | (a, Directory du dn sh sz None) \<Rightarrow>
          (if isGraphQLEnabled env then
             (let directory = drop 1 (path st);
                  expression = branch st @ '':'' @ directory;
                  s1 = record_call (ApolloQuery (owner st) (repo st) expression) s
              in case apolloQuery env (owner st) (repo st) expression of
                   Inl e \<Rightarrow> (Inl e, s1)
                 | Inr None \<Rightarrow> (Inl (FileNotADirectory u), s1)
                 | Inr (Some entries) \<Rightarrow>
                     (let es = entriesToMap (joinPath env) (Some entries) u
                      in (Inr (getNameTypePairs es), assign_entries a es s1)))
           else
             (let s1 = record_call (ReadGitHubDirectory st) s
              in case readGitHubDirectory env st of
                   Inl e \<Rightarrow> (Inl e, s1)
                 | Inr data \<Rightarrow>
                     (let s2 = assign_entries a (Some []) s1
                      in case data of
                           None \<Rightarrow> (Inl TypeError, s2)
                         | Some tree \<Rightarrow> rest_map u a tree [] s2))))"

text \<open>
  \<^verbatim>\<open>readDirectory\<close>, with the bound on the depth of the calls it makes to itself
  through \<^verbatim>\<open>_lookup\<close>.
\<close>

primrec readDirectory :: "nat \<Rightarrow> Env \<Rightarrow> Uri \<Rightarrow> FsState \<Rightarrow> (string \<times> FileType) list promise" where
  "readDirectory 0 = (\<lambda>env u s. None)"
| "readDirectory (Suc k) = (\<lambda>env u s.
     if authority u = [] then Some (Inl (FileNotFound u), s)
     else (case parseUri env u of
             Inl e \<Rightarrow> Some (Inl e, s)
           | Inr st \<Rightarrow>
               (case lookupAsDirectory_via (readDirectory k env) env st False s of
                  None \<Rightarrow> None
                | Some (Inl e, s1) \<Rightarrow> Some (Inl e, s1)
                | Some (Inr None, s1) \<Rightarrow> Some (Inl TypeError, s1)
                | Some (Inr (Some parent), s1) \<Rightarrow> Some (readDirectory_parent env u st parent s1))))"

text \<open>The remote call that populating a directory makes, by the strategy in force.\<close>

definition population_call :: "Env \<Rightarrow> UriState \<Rightarrow> RemoteCall" where
  "population_call env st =
     (if isGraphQLEnabled env
      then ApolloQuery (owner st) (repo st) (branch st @ '':'' @ drop 1 (path st))
      else ReadGitHubDirectory st)"

text \<open>The lookups of the class, with \<^verbatim>\<open>this.readDirectory\<close> in place.\<close>

definition lookup :: "nat \<Rightarrow> Env \<Rightarrow> UriState \<Rightarrow> bool \<Rightarrow> FsState \<Rightarrow> Ref option promise" where
  "lookup k env = lookup_via (readDirectory k env) env"

definition lookupAsDirectory :: "nat \<Rightarrow> Env \<Rightarrow> UriState \<Rightarrow> bool \<Rightarrow> FsState \<Rightarrow> Ref option promise" where
  "lookupAsDirectory k env = lookupAsDirectory_via (readDirectory k env) env"

definition lookupAsFile :: "nat \<Rightarrow> Env \<Rightarrow> UriState \<Rightarrow> bool \<Rightarrow> FsState \<Rightarrow> Ref option promise" where
  "lookupAsFile k env = lookupAsFile_via (readDirectory k env) env"

subsection \<open>GitHub1sFS: stat and readFile\<close>

definition stat :: "nat \<Rightarrow> Env \<Rightarrow> Uri \<Rightarrow> FsState \<Rightarrow> Ref option promise" where
  "stat k env u s =
     (case parseUri env u of
        Inl e \<Rightarrow> Some (Inl e, s)
      | Inr st \<Rightarrow> lookup k env st False s)"

text \<open>
  The callback that receives \<^verbatim>\<open>file\<close> in \<^verbatim>\<open>readFile\<close>: data that is present is
  returned; otherwise the blob is fetched by its sha, decoded, stored and returned.
  (\<^verbatim>\<open>_lookupAsFile\<close> returns files only, so the case of a directory is there for
  totality.)
\<close>

definition readFile_file ::
  "Env \<Rightarrow> UriState \<Rightarrow> Ref \<Rightarrow> FsState \<Rightarrow> (FileSystemError + bytes) \<times> FsState" where
  "readFile_file env st file s =
     (case file of
        (a, Directory du dn sh sz es) \<Rightarrow> (Inl TypeError, s)
      | (a, File fu fn sh sz (Some d)) \<Rightarrow> (Inr d, s)
      | (a, File fu fn sh sz None) \<Rightarrow>
          (let s1 = record_call (ReadGitHubFile st sh) s
           in case readGitHubFile env st sh of
                Inl e \<Rightarrow> (Inl e, s1)
              | Inr content \<Rightarrow>
                  (case decodeBase64 env content of
                     Inl e \<Rightarrow> (Inl e, s1)
                   | Inr d \<Rightarrow> (Inr d, assign_data a (Some d) s1))))"

definition readFile :: "nat \<Rightarrow> Env \<Rightarrow> Uri \<Rightarrow> FsState \<Rightarrow> bytes promise" where
  "readFile k env u s =
     (if authority u = [] then Some (Inl (FileNotFound u), s)
      else (case parseUri env u of
              Inl e \<Rightarrow> Some (Inl e, s)
            | Inr st \<Rightarrow>
                (case lookupAsFile k env st False s of
                   None \<Rightarrow> None
                 | Some (Inl e, s1) \<Rightarrow> Some (Inl e, s1)
                 | Some (Inr None, s1) \<Rightarrow> Some (Inl TypeError, s1)
                 | Some (Inr (Some file), s1) \<Rightarrow> Some (readFile_file env st file s1))))"

subsection \<open>Request deduplication\<close>

text \<open>
  Modelled from the spec: the wrapper \<^verbatim>\<open>reuseable\<close> of \<^verbatim>\<open>./util\<close>, which the
  file applies to \<^verbatim>\<open>readDirectory\<close> and \<^verbatim>\<open>readFile\<close> with the key
  \<^verbatim>\<open>uri.toString()\<close> and whose code is not part of the file. The specification
  describes it as a registry of the operations in flight, one per class of operation: a
  mapping from the key to a pending result, entered before the operation starts and
  removed when it settles; a caller that finds an entry for its key attaches to it
  instead of starting the operation, and all callers attached receive the one outcome,
  success or failure. The scheduling is cooperative, so the calls that arrive while an
  operation is in flight are events between its start and its settlement. An entry holds
  the argument of the call that started the operation and the callers attached, in
  order; \<^verbatim>\<open>delivered\<close> records which outcome each caller received.
\<close>

record 'r Reuseable =
  inflight :: "(string \<times> Uri \<times> nat list) list"
  delivered :: "(nat \<times> 'r) list"

text \<open>
  Modelled from the spec: a call with a key. With no entry for the key the operation
  starts and is registered; otherwise the caller attaches to the entry.
\<close>

definition attach :: "string \<Rightarrow> nat \<Rightarrow> Uri \<Rightarrow> 'r Reuseable \<Rightarrow> 'r Reuseable" where
  "attach key caller u d =
     (case map_of (inflight d) key of
        None \<Rightarrow> d\<lparr>inflight := AList.update key (u, [caller]) (inflight d)\<rparr>
      | Some (u0, waiting) \<Rightarrow> d\<lparr>inflight := AList.update key (u0, waiting @ [caller]) (inflight d)\<rparr>)"

text \<open>
  Modelled from the spec: the settlement of the operation registered under a key. Its
  outcome goes to every caller attached and the entry is cleared.
\<close>

definition settle :: "string \<Rightarrow> 'r \<Rightarrow> 'r Reuseable \<Rightarrow> 'r Reuseable" where
  "settle key outcome d =
     (case map_of (inflight d) key of
        None \<Rightarrow> d
      | Some (u0, waiting) \<Rightarrow>
          d\<lparr>inflight := AList.delete key (inflight d),
            delivered := delivered d @ map (\<lambda>caller. (caller, outcome)) waiting\<rparr>)"

text \<open>
  Modelled from the spec: the provider with its two registries. A call to the wrapped
  \<^verbatim>\<open>readDirectory\<close> or \<^verbatim>\<open>readFile\<close> is an event of its own; the operation
  registered under a key runs, as \<^const>\<open>readDirectory\<close> or \<^const>\<open>readFile\<close> above
  on the argument of the call that started it, when it settles. \<^verbatim>\<open>Uri.toString\<close> is
  a parameter.
\<close>

record Provider =
  fs :: FsState
  dirs :: "(FileSystemError + (string \<times> FileType) list) Reuseable"
  files :: "(FileSystemError + bytes) Reuseable"

text \<open>
  Modelled from the spec: a caller calls the wrapped \<^verbatim>\<open>readDirectory\<close>; the key is
  the URI as a string.
\<close>

definition call_readDirectory :: "(Uri \<Rightarrow> string) \<Rightarrow> Uri \<Rightarrow> Provider \<Rightarrow> nat \<Rightarrow> Provider" where
  "call_readDirectory toString u p caller = p\<lparr>dirs := attach (toString u) caller u (dirs p)\<rparr>"

text \<open>
  Modelled from the spec: the \<^verbatim>\<open>readDirectory\<close> in flight under a key settles. A
  run that does not settle within the bound leaves everything as it is.
\<close>

definition settle_readDirectory :: "nat \<Rightarrow> Env \<Rightarrow> string \<Rightarrow> Provider \<Rightarrow> Provider" where
  "settle_readDirectory k env key p =
     (case map_of (inflight (dirs p)) key of
        None \<Rightarrow> p
      | Some (u0, waiting) \<Rightarrow>
          (case readDirectory k env u0 (fs p) of
             None \<Rightarrow> p
           | Some (outcome, s') \<Rightarrow> p\<lparr>fs := s', dirs := settle key outcome (dirs p)\<rparr>))"

text \<open>Modelled from the spec: a caller calls the wrapped \<^verbatim>\<open>readFile\<close>.\<close>

definition call_readFile :: "(Uri \<Rightarrow> string) \<Rightarrow> Uri \<Rightarrow> Provider \<Rightarrow> nat \<Rightarrow> Provider" where
  "call_readFile toString u p caller = p\<lparr>files := attach (toString u) caller u (files p)\<rparr>"

text \<open>Modelled from the spec: the \<^verbatim>\<open>readFile\<close> in flight under a key settles.\<close>

definition settle_readFile :: "nat \<Rightarrow> Env \<Rightarrow> string \<Rightarrow> Provider \<Rightarrow> Provider" where
  "settle_readFile k env key p =
     (case map_of (inflight (files p)) key of
        None \<Rightarrow> p
      | Some (u0, waiting) \<Rightarrow>
          (case readFile k env u0 (fs p) of
             None \<Rightarrow> p
           | Some (outcome, s') \<Rightarrow> p\<lparr>fs := s', files := settle key outcome (files p)\<rparr>))"

subsection \<open>Path resolution as the specification words it\<close>

text \<open>
  The specification describes resolution without the loop and without fetching: the
  node reached from the root by following each segment once, where following a segment
  means looking it up in the children of a populated directory.
\<close>

definition child_named :: "Entry \<Rightarrow> string \<Rightarrow> Entry option" where
  "child_named e seg =
     (case e of
        Directory u n sh sz (Some m) \<Rightarrow> map_of m seg
      | _ \<Rightarrow> None)"

definition follow_segments :: "Entry \<Rightarrow> string list \<Rightarrow> Entry option" where
  "follow_segments r segs =
     foldl (\<lambda>cur seg. case cur of None \<Rightarrow> None | Some e \<Rightarrow> child_named e seg) (Some r) segs"

subsection \<open>A small repository for the examples\<close>

text \<open>
  A locator parser that reads owner, repository and branch as fixed and takes the path
  from the URI, and a tree with a file \<^verbatim>\<open>a\<close> not yet read, a directory \<^verbatim>\<open>d\<close>
  holding a file \<^verbatim>\<open>f\<close> with two bytes, an empty directory \<^verbatim>\<open>e\<close> and two
  directories \<^verbatim>\<open>n\<close>, \<^verbatim>\<open>m\<close> and \<^verbatim>\<open>x\<close> not yet read, and a file \<^verbatim>\<open>z\<close>
  read and found empty.
\<close>

definition demo_uri :: "string \<Rightarrow> Uri" where
  "demo_uri p = \<lparr>authority = ''o+r+b'', uri_path = p\<rparr>"

definition demo_state :: "string \<Rightarrow> UriState" where
  "demo_state p = \<lparr>owner = ''o'', repo = ''r'', branch = ''b'', path = p, uri = demo_uri p\<rparr>"

definition demo_join :: "Uri \<Rightarrow> string \<Rightarrow> Uri" where
  "demo_join u n =
     u\<lparr>uri_path := (if n = [] then uri_path u
                     else if uri_path u = ''/'' then ''/'' @ n
                     else uri_path u @ ''/'' @ n)\<rparr>"

definition demo_root :: Entry where
  "demo_root =
     Directory (demo_uri ''/'') [] [] (Some 0) (Some
       [(''a'', File (demo_uri ''/'') ''a'' ''sha-a'' (Some 2) None),
        (''d'', Directory (demo_uri ''/'') ''d'' ''sha-d'' (Some 0) (Some
           [(''f'', File (demo_uri ''/d'') ''f'' ''sha-f'' (Some 2) (Some [104, 105]))])),
        (''e'', Directory (demo_uri ''/'') ''e'' ''sha-e'' (Some 0) (Some [])),
        (''n'', Directory (demo_uri ''/'') ''n'' ''sha-n'' (Some 0) None),
        (''m'', Directory (demo_uri ''/'') ''m'' ''sha-m'' (Some 0) None),
        (''x'', Directory (demo_uri ''/'') ''x'' ''sha-x'' (Some 0) None),
        (''z'', File (demo_uri ''/'') ''z'' ''sha-z'' (Some 0) (Some []))])"

definition demo_fs :: FsState where
  "demo_fs = \<lparr>root = Some demo_root, calls = []\<rparr>"

text \<open>
  The REST remote: the root holds the directory \<^verbatim>\<open>n\<close> and the file \<^verbatim>\<open>a\<close>,
  \<^verbatim>\<open>/n\<close> has no children, nothing else is a directory, and every blob is \<^verbatim>\<open>hi\<close>.
\<close>

definition demo_item_n :: RestItem where
  "demo_item_n = \<lparr>item_path = ''n'', item_type = ''tree'', item_sha = ''sha-n'', item_size = None\<rparr>"

definition demo_item_a :: RestItem where
  "demo_item_a = \<lparr>item_path = ''a'', item_type = ''blob'', item_sha = ''sha-a'', item_size = Some 2\<rparr>"

definition demo_rest :: Env where
  "demo_rest =
     \<lparr>parseUri = (\<lambda>u. Inr (demo_state (uri_path u))),
      joinPath = demo_join,
      isGraphQLEnabled = False,
      apolloQuery = (\<lambda>ow re ex. Inl (RemoteFailure ''graphql is off'')),
      readGitHubDirectory = (\<lambda>st.
        if path st = ''/'' then
          Inr (Some [Some demo_item_n, Some demo_item_a])
        else if path st = ''/n'' then Inr (Some [])
        else Inl (RemoteFailure ''404'')),
      readGitHubFile = (\<lambda>st sh. Inr ''aGk=''),
      decodeBase64 = (\<lambda>c. if c = ''aGk='' then Inr [104, 105] else Inl TypeError)\<rparr>"

text \<open>
  The GraphQL remote: \<^verbatim>\<open>/n\<close> holds a binary file \<^verbatim>\<open>img\<close>, a text file
  \<^verbatim>\<open>txt\<close>, a submodule \<^verbatim>\<open>sub\<close> that has no object, a file \<^verbatim>\<open>nul\<close> that is
  not flagged binary and whose text is null, and a directory \<^verbatim>\<open>lib\<close> with its own
  entries inlined, a binary file \<^verbatim>\<open>logo\<close> and a text file \<^verbatim>\<open>note\<close>; \<^verbatim>\<open>/m\<close>
  has no children; nothing else is a directory.
\<close>

definition demo_img :: GqlEntry where
  "demo_img = GqlEntry ''blob'' ''img'' ''sha-img'' (Some (GqlObject (Some 2) (Some True) Null None))"

definition demo_txt :: GqlEntry where
  "demo_txt = GqlEntry ''blob'' ''txt'' ''sha-txt'' (Some (GqlObject (Some 2) (Some False) (Text ''ok'') None))"

definition demo_sub :: GqlEntry where
  "demo_sub = GqlEntry ''commit'' ''sub'' ''sha-sub'' None"

definition demo_nul :: GqlEntry where
  "demo_nul = GqlEntry ''blob'' ''nul'' ''sha-nul'' (Some (GqlObject (Some 9) None Null None))"

definition demo_logo :: GqlEntry where
  "demo_logo = GqlEntry ''blob'' ''logo'' ''sha-logo'' (Some (GqlObject (Some 2) (Some True) Null None))"

definition demo_note :: GqlEntry where
  "demo_note = GqlEntry ''blob'' ''note'' ''sha-note'' (Some (GqlObject (Some 2) (Some False) (Text ''in'') None))"

definition demo_lib :: GqlEntry where
  "demo_lib = GqlEntry ''tree'' ''lib'' ''sha-lib'' (Some (GqlObject None None Undefined (Some [demo_logo, demo_note])))"

definition demo_items :: "GqlEntry list" where
  "demo_items = [demo_img, demo_txt, demo_sub, demo_nul, demo_lib]"

definition demo_gql :: Env where
  "demo_gql =
     \<lparr>parseUri = (\<lambda>u. Inr (demo_state (uri_path u))),
      joinPath = demo_join,
      isGraphQLEnabled = True,
      apolloQuery = (\<lambda>ow re ex. if ex = ''b:n'' then Inr (Some demo_items)
                                else if ex = ''b:m'' then Inr (Some []) else Inr None),
      readGitHubDirectory = (\<lambda>st. Inl (RemoteFailure ''rest is off'')),
      readGitHubFile = (\<lambda>st sh. Inr ''aGk=''),
      decodeBase64 = (\<lambda>c. if c = ''aGk='' then Inr [104, 105] else Inl TypeError)\<rparr>"

text \<open>The state after \<^verbatim>\<open>/n\<close> has been listed through GraphQL.\<close>

definition demo_listed :: FsState where
  "demo_listed =
     assign_entries [''n''] (entriesToMap demo_join (Some demo_items) (demo_uri ''/n''))
       (record_call (ApolloQuery ''o'' ''r'' ''b:n'') demo_fs)"

text \<open>
  Two REST remotes whose promise is fulfilled with a malformed answer: one without a
  tree, one whose tree holds the item of \<^verbatim>\<open>n\<close> and then a null. The state
  \<open>demo_stale\<close> has a root with empty entries and one remote call on record; in
  \<open>demo_half\<close> the root holds \<^verbatim>\<open>n\<close> alone.
\<close>

definition demo_broken :: Env where
  "demo_broken =
     \<lparr>parseUri = (\<lambda>u. Inr (demo_state (uri_path u))),
      joinPath = demo_join,
      isGraphQLEnabled = False,
      apolloQuery = (\<lambda>ow re ex. Inl (RemoteFailure ''graphql is off'')),
      readGitHubDirectory = (\<lambda>st. Inr None),
      readGitHubFile = (\<lambda>st sh. Inr ''aGk=''),
      decodeBase64 = (\<lambda>c. if c = ''aGk='' then Inr [104, 105] else Inl TypeError)\<rparr>"

definition demo_partial :: Env where
  "demo_partial =
     \<lparr>parseUri = (\<lambda>u. Inr (demo_state (uri_path u))),
      joinPath = demo_join,
      isGraphQLEnabled = False,
      apolloQuery = (\<lambda>ow re ex. Inl (RemoteFailure ''graphql is off'')),
      readGitHubDirectory = (\<lambda>st. Inr (Some [Some demo_item_n, None])),
      readGitHubFile = (\<lambda>st sh. Inr ''aGk=''),
      decodeBase64 = (\<lambda>c. if c = ''aGk='' then Inr [104, 105] else Inl TypeError)\<rparr>"



text \<open>A remote that is down: every fetch fails.\<close>

definition demo_down :: Env where
  "demo_down =
     \<lparr>parseUri = (\<lambda>u. Inr (demo_state (uri_path u))),
      joinPath = demo_join,
      isGraphQLEnabled = False,
      apolloQuery = (\<lambda>ow re ex. Inl (RemoteFailure ''down'')),
      readGitHubDirectory = (\<lambda>st. Inl (RemoteFailure ''down'')),
      readGitHubFile = (\<lambda>st sh. Inl (RemoteFailure ''down'')),
      decodeBase64 = (\<lambda>c. Inl TypeError)\<rparr>"

text \<open>A provider with nothing in flight, and a rendering of URIs as strings.\<close>

definition demo_toString :: "Uri \<Rightarrow> string" where
  "demo_toString u = ''github1s://'' @ authority u @ uri_path u"

definition demo_provider :: Provider where
  "demo_provider =
     \<lparr>fs = demo_fs, dirs = \<lparr>inflight = [], delivered = []\<rparr>, files = \<lparr>inflight = [], delivered = []\<rparr>\<rparr>"

section \<open>Properties\<close>

subsection \<open>The store\<close>

lemmas demo_defs = demo_fs_def demo_root_def demo_state_def demo_uri_def path_parts_def

lemmas env_defs = demo_rest_def demo_gql_def demo_down_def demo_broken_def demo_partial_def

lemmas lookup_defs = lookup_def lookupAsDirectory_def lookupAsFile_def lookup_via_def
  lookupAsDirectory_via_def lookupAsFile_via_def child_of_def

lemma node_at_Cons:
  "node_at e (p # ps) = (case child_named e p of None \<Rightarrow> None | Some c \<Rightarrow> node_at c ps)"
  by (cases "(e, p # ps)" rule: node_at.cases) (simp_all add: child_named_def)

lemma follow_from_None:
  "foldl (\<lambda>cur seg. case cur of None \<Rightarrow> None | Some e \<Rightarrow> child_named e seg) None segs = None"
  by (induction segs) simp_all

lemma follow_segments_node_at: "follow_segments r segs = node_at r segs"
proof (induction segs arbitrary: r)
  case Nil
  show ?case by (simp add: follow_segments_def)
next
  case (Cons p ps)
  show ?case
  proof (cases "child_named r p")
    case None
    then show ?thesis by (simp add: follow_segments_def node_at_Cons follow_from_None)
  next
    case (Some c)
    with Cons [of c] show ?thesis by (simp add: follow_segments_def node_at_Cons)
  qed
qed

lemma node_at_append:
  "node_at e (ps @ qs) = (case node_at e ps of None \<Rightarrow> None | Some c \<Rightarrow> node_at c qs)"
proof (induction ps arbitrary: e)
  case Nil
  show ?case by simp
next
  case (Cons p ps)
  show ?case by (simp add: node_at_Cons Cons split: option.splits)
qed

lemma root_update_same: "root s = Some r \<Longrightarrow> s\<lparr>root := Some r\<rparr> = s"
  by (cases s) simp

lemma node_at_set_entries_at:
  "node_at r a = Some (Directory du dn sh sz old) \<Longrightarrow>
   node_at (set_entries_at a es r) a = Some (Directory du dn sh sz es)"
proof (induction a arbitrary: r)
  case Nil
  then show ?case by simp
next
  case (Cons p ps)
  from Cons.prems obtain u n s z m c where r: "r = Directory u n s z (Some m)"
    and c: "map_of m p = Some c" and at: "node_at c ps = Some (Directory du dn sh sz old)"
    by (cases "(r, p # ps)" rule: node_at.cases) (auto split: option.splits)
  from Cons.IH [OF at] r c show ?case
    by (simp add: update_conv')
qed

lemma node_at_set_data_at:
  "node_at r a = Some (File fu fn sh sz old) \<Longrightarrow>
   node_at (set_data_at a d r) a = Some (File fu fn sh sz d)"
proof (induction a arbitrary: r)
  case Nil
  then show ?case by simp
next
  case (Cons p ps)
  from Cons.prems obtain u n s z m c where r: "r = Directory u n s z (Some m)"
    and c: "map_of m p = Some c" and at: "node_at c ps = Some (File fu fn sh sz old)"
    by (cases "(r, p # ps)" rule: node_at.cases) (auto split: option.splits)
  from Cons.IH [OF at] r c show ?case
    by (simp add: update_conv')
qed

lemma deref_rooted: "root s = Some r \<Longrightarrow> deref s a = node_at r a"
  by (simp add: deref_def)

lemma deref_record_call [simp]: "deref (record_call c s) a = deref s a"
  by (simp add: deref_def record_call_def)

lemma root_record_call [simp]: "root (record_call c s) = root s"
  by (simp add: record_call_def)

lemma calls_record_call [simp]: "calls (record_call c s) = calls s @ [c]"
  by (simp add: record_call_def)

lemma calls_assign_entries [simp]: "calls (assign_entries a es s) = calls s"
  by (simp add: assign_entries_def)

lemma calls_assign_data [simp]: "calls (assign_data a d s) = calls s"
  by (simp add: assign_data_def)

lemma root_assign_entries:
  "root s = Some r \<Longrightarrow> root (assign_entries a es s) = Some (set_entries_at a es r)"
  by (simp add: assign_entries_def)

lemma root_assign_data:
  "root s = Some r \<Longrightarrow> root (assign_data a d s) = Some (set_data_at a d r)"
  by (simp add: assign_data_def)

lemma deref_assign_entries:
  "deref s a = Some (Directory du dn sh sz old) \<Longrightarrow>
   deref (assign_entries a es s) a = Some (Directory du dn sh sz es)"
  by (auto simp: deref_def assign_entries_def node_at_set_entries_at split: option.splits)

lemma deref_assign_entries_child:
  assumes "deref s a = Some (Directory du dn sh sz old)"
  shows "deref (assign_entries a (Some m) s) (a @ [nm]) = map_of m nm"
proof -
  from assms obtain r where r: "root s = Some r"
    by (auto simp: deref_def split: option.splits)
  with assms have "node_at (set_entries_at a (Some m) r) a = Some (Directory du dn sh sz (Some m))"
    by (simp add: deref_def node_at_set_entries_at)
  with r show ?thesis
    by (simp add: deref_def assign_entries_def node_at_append split: option.splits)
qed

lemma deref_assign_data:
  "deref s a = Some (File fu fn sh sz old) \<Longrightarrow>
   deref (assign_data a d s) a = Some (File fu fn sh sz d)"
  by (auto simp: deref_def assign_data_def node_at_set_data_at split: option.splits)

subsection \<open>Walking through populated directories\<close>

lemma child_of_child_named:
  "child_named e part = Some c \<Longrightarrow> child_of rd env walked e part s = Some (Inr (Some c), s)"
  by (auto simp: child_named_def child_of_def split: Entry.splits option.splits)

lemma lookup_loop_walk:
  "node_at entry pre = Some e \<Longrightarrow>
   lookup_loop rd env st silent (pre @ rest) walked entry s =
   lookup_loop rd env st silent rest (walked @ pre) e s"
proof (induction pre arbitrary: entry walked)
  case Nil
  then show ?case by simp
next
  case (Cons p ps)
  from Cons.prems obtain c where c: "child_named entry p = Some c" and at: "node_at c ps = Some e"
    by (auto simp: node_at_Cons split: option.splits)
  from Cons.IH [OF at, of "walked @ [p]"] c show ?case
    by (simp add: child_of_child_named)
qed

lemma lookup_via_rooted:
  "root s = Some r \<Longrightarrow>
   lookup_via rd env st silent s = lookup_loop rd env st silent (path_parts (path st)) [] r s"
  by (simp add: lookup_via_def root_update_same)

lemma lookup_via_found:
  assumes "root s = Some r" and "node_at r (path_parts (path st)) = Some e"
  shows "lookup_via rd env st silent s = Some (Inr (Some (path_parts (path st), e)), s)"
  using lookup_loop_walk [OF assms(2), of rd env st silent "[]" "[]" s] assms(1)
  by (simp add: lookup_via_rooted)

lemma lookup_via_stuck:
  assumes "root s = Some r" and "path_parts (path st) = pre @ seg # rest"
    and "node_at r pre = Some e" and "child_of rd env pre e seg s = Some (Inr None, s)"
  shows "lookup_via rd env st silent s =
    (if \<not> silent then Some (Inl (FileNotFound (uri st)), s) else Some (Inr None, s))"
  using lookup_loop_walk [OF assms(3), of rd env st silent "seg # rest" "[]" s] assms(1,2,4)
  by (simp add: lookup_via_rooted)

lemma lookup_via_deref:
  assumes "deref s (path_parts (path st)) = Some e"
  shows "lookup_via rd env st silent s = Some (Inr (Some (path_parts (path st), e)), s)"
proof -
  from assms obtain r where "root s = Some r" and "node_at r (path_parts (path st)) = Some e"
    by (auto simp: deref_def split: option.splits)
  then show ?thesis by (rule lookup_via_found)
qed

lemma readDirectory_at_directory:
  assumes "authority u \<noteq> []" and "parseUri env u = Inr st"
    and "deref s (path_parts (path st)) = Some (Directory du dn sh sz es)"
  shows "readDirectory (Suc k) env u s =
    Some (readDirectory_parent env u st (path_parts (path st), Directory du dn sh sz es) s)"
  using assms(1,2) lookup_via_deref [OF assms(3), of "readDirectory k env" env False]
  by (simp add: lookupAsDirectory_via_def)

lemma readFile_at_file:
  assumes "authority u \<noteq> []" and "parseUri env u = Inr st"
    and "deref s (path_parts (path st)) = Some (File fu fn sh sz d)"
  shows "readFile k env u s =
    Some (readFile_file env st (path_parts (path st), File fu fn sh sz d) s)"
  using assms(1,2) lookup_via_deref [OF assms(3), of "readDirectory k env" env False]
  by (simp add: readFile_def lookupAsFile_def lookupAsFile_via_def)

lemma calls_entries_set [simp]: "calls (entries_set a k v s) = calls s"
  by (simp add: entries_set_def split: option.splits Entry.splits)

lemma calls_rest_map: "calls (snd (rest_map u a tree out s)) = calls s"
  by (induction u a tree out s rule: rest_map.induct) simp_all

lemma readDirectory_parent_calls:
  "calls (snd (readDirectory_parent env u st (a, Directory du dn sh sz None) s)) =
   calls s @ [if isGraphQLEnabled env
            then ApolloQuery (owner st) (repo st) (branch st @ '':'' @ drop 1 (path st))
            else ReadGitHubDirectory st]"
  by (auto simp: readDirectory_parent_def Let_def calls_rest_map split: if_splits sum.splits option.splits)

lemma graphql_failure_leaves_state:
  assumes "isGraphQLEnabled env"
    and "readDirectory_parent env u st (a, Directory du dn sh sz None) s = (Inl e, s')"
  shows "s' = record_call (ApolloQuery (owner st) (repo st) (branch st @ '':'' @ drop 1 (path st))) s"
  using assms
  by (auto simp: readDirectory_parent_def Let_def split: sum.splits option.splits)

lemma rest_rejection_leaves_state:
  assumes "\<not> isGraphQLEnabled env" and "readGitHubDirectory env st = Inl e"
  shows "readDirectory_parent env u st (a, Directory du dn sh sz None) s =
    (Inl e, record_call (ReadGitHubDirectory st) s)"
  using assms by (simp add: readDirectory_parent_def)

lemma readFile_file_failure:
  assumes "readFile_file env st (a, File fu fn sh sz None) s = (Inl e, s')"
  shows "s' = record_call (ReadGitHubFile st sh) s"
  using assms
  by (auto simp: readFile_file_def Let_def split: sum.splits)

lemma readFile_file_calls:
  "calls (snd (readFile_file env st (a, File fu fn sh sz None) s)) = calls s @ [ReadGitHubFile st sh]"
  by (auto simp: readFile_file_def Let_def split: sum.splits)

subsection \<open>The bound on the nesting\<close>

text \<open>
  A result reached within a bound is the result for every larger bound, so a theorem
  about \<^term>\<open>readDirectory (Suc k)\<close> for every \<open>k\<close> says what the call returns.
\<close>

lemma child_of_mono:
  assumes "\<And>u s r. rd u s = Some r \<Longrightarrow> rd' u s = Some r"
    and "child_of rd env walked entry part s = Some x"
  shows "child_of rd' env walked entry part s = Some x"
proof (cases entry)
  case (File u n sh sz d)
  with assms(2) show ?thesis by (simp add: child_of_def)
next
  case (Directory u n sh sz es)
  show ?thesis
  proof (cases es)
    case (Some m)
    with Directory assms(2) show ?thesis by (simp add: child_of_def)
  next
    case None
    with Directory assms(2) obtain r where r: "rd (joinPath env u n) s = Some r"
      by (auto simp: child_of_def split: option.splits)
    from assms(1) [OF r] r assms(2) Directory None show ?thesis
      by (simp add: child_of_def)
  qed
qed

lemma lookup_loop_mono:
  assumes "\<And>u s r. rd u s = Some r \<Longrightarrow> rd' u s = Some r"
  shows "lookup_loop rd env st silent parts walked entry s = Some x \<Longrightarrow>
    lookup_loop rd' env st silent parts walked entry s = Some x"
proof (induction parts arbitrary: walked entry s)
  case Nil
  then show ?case by simp
next
  case (Cons part rest)
  from Cons.prems obtain y where y: "child_of rd env walked entry part s = Some y"
    by (auto split: option.splits)
  from child_of_mono [of rd rd', OF assms y] have y': "child_of rd' env walked entry part s = Some y" .
  obtain res s1 where ys: "y = (res, s1)" by (cases y)
  show ?case
  proof (cases res)
    case (Inl e)
    with Cons.prems y y' ys show ?thesis by simp
  next
    case (Inr c)
    show ?thesis
    proof (cases c)
      case None
      with Inr Cons.prems y y' ys show ?thesis by simp
    next
      case (Some child)
      with Inr Cons.prems y ys
      have "lookup_loop rd env st silent rest (walked @ [part]) child s1 = Some x" by simp
      then have "lookup_loop rd' env st silent rest (walked @ [part]) child s1 = Some x"
        by (rule Cons.IH)
      with Some Inr y' ys show ?thesis by simp
    qed
  qed
qed

lemma lookupAsDirectory_via_mono:
  assumes "\<And>u s r. rd u s = Some r \<Longrightarrow> rd' u s = Some r"
    and "lookupAsDirectory_via rd env st silent s = Some x"
  shows "lookupAsDirectory_via rd' env st silent s = Some x"
proof -
  from assms(2) obtain y where y: "lookup_via rd env st silent s = Some y"
    by (auto simp: lookupAsDirectory_via_def split: option.splits)
  have "lookup_via rd' env st silent s = Some y"
    using assms(1) y unfolding lookup_via_def Let_def by (rule lookup_loop_mono)
  with y assms(2) show ?thesis by (simp add: lookupAsDirectory_via_def)
qed

lemma lookupAsFile_via_mono:
  assumes "\<And>u s r. rd u s = Some r \<Longrightarrow> rd' u s = Some r"
    and "lookupAsFile_via rd env st silent s = Some x"
  shows "lookupAsFile_via rd' env st silent s = Some x"
proof -
  from assms(2) obtain y where y: "lookup_via rd env st silent s = Some y"
    by (auto simp: lookupAsFile_via_def split: option.splits)
  have "lookup_via rd' env st silent s = Some y"
    using assms(1) y unfolding lookup_via_def Let_def by (rule lookup_loop_mono)
  with y assms(2) show ?thesis by (simp add: lookupAsFile_via_def)
qed

lemma readDirectory_mono:
  "readDirectory k env u s = Some r \<Longrightarrow> readDirectory (Suc k) env u s = Some r"
proof (induction k arbitrary: u s r)
  case 0
  then show ?case by simp
next
  case (Suc k)
  show ?case
  proof (cases "authority u = []")
    case True
    with Suc.prems show ?thesis by simp
  next
    case False
    show ?thesis
    proof (cases "parseUri env u")
      case (Inl e)
      with False Suc.prems show ?thesis by simp
    next
      case (Inr st)
      with False Suc.prems obtain y where
        y: "lookupAsDirectory_via (readDirectory k env) env st False s = Some y"
        by (auto split: option.splits)
      have "lookupAsDirectory_via (readDirectory (Suc k) env) env st False s = Some y"
        using Suc.IH y by (rule lookupAsDirectory_via_mono)
      with y Inr False Suc.prems show ?thesis by simp
    qed
  qed
qed

lemma readFile_mono:
  assumes "readFile k env u s = Some r"
  shows "readFile (Suc k) env u s = Some r"
proof (cases "authority u = []")
  case True
  with assms show ?thesis by (simp add: readFile_def)
next
  case False
  show ?thesis
  proof (cases "parseUri env u")
    case (Inl e)
    with False assms show ?thesis by (simp add: readFile_def)
  next
    case (Inr st)
    with False assms obtain y where
      y: "lookupAsFile_via (readDirectory k env) env st False s = Some y"
      by (auto simp: readFile_def lookupAsFile_def split: option.splits)
    have "lookupAsFile_via (readDirectory (Suc k) env) env st False s = Some y"
      using readDirectory_mono y by (rule lookupAsFile_via_mono)
    with y Inr False assms show ?thesis by (simp add: readFile_def lookupAsFile_def)
  qed
qed

text \<open>
  Starting with no root, listing \<^verbatim>\<open>/n\<close> creates the root, reads it from the remote
  inside \<^verbatim>\<open>_lookup\<close>, and then reads \<^verbatim>\<open>/n\<close>: a nesting of depth two.
\<close>

lemma nested_population_example:
  "readDirectory (Suc (Suc 0)) demo_rest (demo_uri ''/n'') \<lparr>root = None, calls = []\<rparr> =
     Some (Inr [],
       \<lparr>root = Some (Directory (demo_uri ''/'') [] [] (Some 0) (Some
          [(''n'', Directory (demo_uri ''/'') ''n'' ''sha-n'' (Some 0) (Some [])),
           (''a'', File (demo_uri ''/'') ''a'' ''sha-a'' (Some 2) None)])),
        calls = [ReadGitHubDirectory (demo_state ''/''), ReadGitHubDirectory (demo_state ''/n'')]\<rparr>)"
  "readDirectory (Suc 0) demo_rest (demo_uri ''/n'') \<lparr>root = None, calls = []\<rparr> = None"
  by (simp_all add: lookupAsDirectory_via_def lookup_via_def child_of_def readDirectory_parent_def
      deref_def assign_entries_def entries_set_def record_call_def rest_entry_def rest_fileType_def
      getNameTypePairs_def demo_rest_def demo_item_n_def demo_item_a_def demo_join_def demo_state_def
      demo_uri_def path_parts_def Let_def)

subsection \<open>Resolution of paths\<close>

text \<open>
  Claim C6. In a tree where the path exists (every directory on the way is populated and
  holds the next segment), \<^verbatim>\<open>_lookup\<close> returns the node that following the
  non-empty segments of the path from the root reaches, in both modes, without changing
  the state and so without a remote call. For a path with no non-empty segment it returns
  the root, which it creates first (with the URI of the request at path \<^verbatim>\<open>/\<close>, an
  empty name and entries that are null) when there is none yet.
\<close>

theorem lookup_resolves:
  "(root s = Some r \<and> follow_segments r (path_parts (path st)) = Some e \<longrightarrow>
      lookup k env st silent s = Some (Inr (Some (path_parts (path st), e)), s)) \<and>
   (root s = Some r \<and> path_parts (path st) = [] \<longrightarrow>
      lookup k env st silent s = Some (Inr (Some ([], r)), s)) \<and>
   (root s = None \<and> path_parts (path st) = [] \<longrightarrow>
      lookup k env st silent s =
        Some (Inr (Some ([], Directory ((uri st)\<lparr>uri_path := ''/''\<rparr>) [] [] (Some 0) None)),
              s\<lparr>root := Some (Directory ((uri st)\<lparr>uri_path := ''/''\<rparr>) [] [] (Some 0) None)\<rparr>))"
proof (intro conjI impI)
  assume h: "root s = Some r \<and> follow_segments r (path_parts (path st)) = Some e"
  then show "lookup k env st silent s = Some (Inr (Some (path_parts (path st), e)), s)"
    by (simp add: lookup_def lookup_via_found follow_segments_node_at)
next
  assume "root s = Some r \<and> path_parts (path st) = []"
  then show "lookup k env st silent s = Some (Inr (Some ([], r)), s)"
    by (simp add: lookup_def lookup_via_rooted)
next
  assume "root s = None \<and> path_parts (path st) = []"
  then show "lookup k env st silent s =
        Some (Inr (Some ([], Directory ((uri st)\<lparr>uri_path := ''/''\<rparr>) [] [] (Some 0) None)),
              s\<lparr>root := Some (Directory ((uri st)\<lparr>uri_path := ''/''\<rparr>) [] [] (Some 0) None)\<rparr>)"
    by (simp add: lookup_def lookup_via_def Let_def)
qed

theorem lookup_resolves_witness:
  "root demo_fs = Some demo_root \<and>
   follow_segments demo_root (path_parts (path (demo_state ''/d/f''))) =
     Some (File (demo_uri ''/d'') ''f'' ''sha-f'' (Some 2) (Some [104, 105])) \<and>
   lookup 0 demo_down (demo_state ''/d/f'') False demo_fs =
     Some (Inr (Some ([''d'', ''f''], File (demo_uri ''/d'') ''f'' ''sha-f'' (Some 2) (Some [104, 105]))), demo_fs) \<and>
   path_parts (path (demo_state ''/'')) = [] \<and>
   lookup 0 demo_down (demo_state ''/'') False demo_fs = Some (Inr (Some ([], demo_root)), demo_fs) \<and>
   root \<lparr>root = None, calls = []\<rparr> = None \<and>
   lookup 0 demo_down (demo_state ''/'') False \<lparr>root = None, calls = []\<rparr> =
     Some (Inr (Some ([], Directory (demo_uri ''/'') [] [] (Some 0) None)),
           \<lparr>root = Some (Directory (demo_uri ''/'') [] [] (Some 0) None), calls = []\<rparr>)"
proof -
  have h1: "root demo_fs = Some demo_root" by (simp add: demo_fs_def)
  have h2: "follow_segments demo_root (path_parts (path (demo_state ''/d/f''))) =
     Some (File (demo_uri ''/d'') ''f'' ''sha-f'' (Some 2) (Some [104, 105]))"
    by (simp add: follow_segments_def child_named_def demo_root_def demo_state_def path_parts_def)
  have h3: "path_parts (path (demo_state ''/'')) = []" by (simp add: demo_state_def path_parts_def)
  have h4: "root \<lparr>root = None, calls = []\<rparr> = None" by simp
  note t1 = lookup_resolves [of demo_fs demo_root "demo_state ''/d/f''" _ 0 demo_down False]
  note t2 = lookup_resolves [of demo_fs demo_root "demo_state ''/''" _ 0 demo_down False]
  note t3 = lookup_resolves [of "\<lparr>root = None, calls = []\<rparr>" _ "demo_state ''/''" _ 0 demo_down False]
  from h1 h2 t1 have c1: "lookup 0 demo_down (demo_state ''/d/f'') False demo_fs =
     Some (Inr (Some ([''d'', ''f''], File (demo_uri ''/d'') ''f'' ''sha-f'' (Some 2) (Some [104, 105]))), demo_fs)"
    by (simp add: demo_state_def path_parts_def)
  from h1 h3 t2 have c2: "lookup 0 demo_down (demo_state ''/'') False demo_fs = Some (Inr (Some ([], demo_root)), demo_fs)"
    by simp
  from h3 h4 t3 have c3: "lookup 0 demo_down (demo_state ''/'') False \<lparr>root = None, calls = []\<rparr> =
     Some (Inr (Some ([], Directory (demo_uri ''/'') [] [] (Some 0) None)),
           \<lparr>root = Some (Directory (demo_uri ''/'') [] [] (Some 0) None), calls = []\<rparr>)"
    by (simp add: demo_state_def demo_uri_def)
  from h1 h2 h3 h4 c1 c2 c3 show ?thesis by simp
qed

text \<open>
  Claim C7. When the walk has reached a populated directory and the next segment of the
  path is not among its children, \<^verbatim>\<open>_lookup\<close> fails with FileNotFound for the URI of
  the request when it is not silent, and returns \<^verbatim>\<open>undefined\<close> when it is; the state
  is unchanged.
\<close>

theorem lookup_missing_segment:
  assumes "root s = Some r" and "path_parts (path st) = pre @ seg # rest"
    and "node_at r pre = Some (Directory u n sh sz (Some m))" and "map_of m seg = None"
  shows "lookup k env st False s = Some (Inl (FileNotFound (uri st)), s) \<and>
         lookup k env st True s = Some (Inr None, s)"
  using lookup_via_stuck [OF assms(1,2,3), where rd = "readDirectory k env" and env = env] assms(4)
  by (simp add: lookup_def child_of_def)

theorem lookup_missing_segment_witness:
  "root demo_fs = Some demo_root \<and>
   path_parts (path (demo_state ''/d/zzz/q'')) = [''d''] @ ''zzz'' # [''q''] \<and>
   node_at demo_root [''d''] = Some (Directory (demo_uri ''/'') ''d'' ''sha-d'' (Some 0) (Some
           [(''f'', File (demo_uri ''/d'') ''f'' ''sha-f'' (Some 2) (Some [104, 105]))])) \<and>
   map_of [(''f'', File (demo_uri ''/d'') ''f'' ''sha-f'' (Some 2) (Some [104, 105]))] ''zzz'' = None \<and>
   lookup 0 demo_down (demo_state ''/d/zzz/q'') False demo_fs = Some (Inl (FileNotFound (demo_uri ''/d/zzz/q'')), demo_fs) \<and>
   lookup 0 demo_down (demo_state ''/d/zzz/q'') True demo_fs = Some (Inr None, demo_fs)"
proof -
  have h1: "root demo_fs = Some demo_root" by (simp add: demo_fs_def)
  have h2: "path_parts (path (demo_state ''/d/zzz/q'')) = [''d''] @ ''zzz'' # [''q'']"
    by (simp add: demo_state_def path_parts_def)
  have h3: "node_at demo_root [''d''] = Some (Directory (demo_uri ''/'') ''d'' ''sha-d'' (Some 0) (Some
           [(''f'', File (demo_uri ''/d'') ''f'' ''sha-f'' (Some 2) (Some [104, 105]))]))"
    by (simp add: demo_root_def)
  have h4: "map_of [(''f'', File (demo_uri ''/d'') ''f'' ''sha-f'' (Some 2) (Some [104, 105]))] ''zzz'' = None"
    by simp
  from lookup_missing_segment [OF h1 h2 h3 h4, of 0 demo_down] h1 h2 h3 h4
  show ?thesis by (simp add: demo_state_def)
qed

text \<open>
  Claim C1, as the code has it. When the walk has reached a file and the path has a
  further segment, \<^verbatim>\<open>_lookup\<close> finds no child and fails, when it is not silent, with
  FileNotFound for the URI of the request; \<^verbatim>\<open>_lookupAsDirectory\<close> passes that error
  on. No FileNotADirectory arises inside the walk. When silent, the result is
  \<^verbatim>\<open>undefined\<close>.
\<close>

theorem lookup_through_file:
  assumes "root s = Some r" and "path_parts (path st) = pre @ seg # rest"
    and "node_at r pre = Some (File u n sh sz d)"
  shows "lookup k env st False s = Some (Inl (FileNotFound (uri st)), s) \<and>
         lookupAsDirectory k env st False s = Some (Inl (FileNotFound (uri st)), s) \<and>
         lookup k env st True s = Some (Inr None, s)"
  using lookup_via_stuck [OF assms, where rd = "readDirectory k env" and env = env]
  by (simp add: lookup_def lookupAsDirectory_def lookupAsDirectory_via_def child_of_def)

theorem lookup_through_file_witness:
  "root demo_fs = Some demo_root \<and>
   path_parts (path (demo_state ''/a/b/c'')) = [''a''] @ ''b'' # [''c''] \<and>
   node_at demo_root [''a''] = Some (File (demo_uri ''/'') ''a'' ''sha-a'' (Some 2) None) \<and>
   lookup 1 demo_rest (demo_state ''/a/b/c'') False demo_fs =
     Some (Inl (FileNotFound (uri (demo_state ''/a/b/c''))), demo_fs) \<and>
   lookupAsDirectory 1 demo_rest (demo_state ''/a/b/c'') False demo_fs =
     Some (Inl (FileNotFound (uri (demo_state ''/a/b/c''))), demo_fs) \<and>
   lookup 1 demo_rest (demo_state ''/a/b/c'') True demo_fs = Some (Inr None, demo_fs)"
proof -
  have h1: "root demo_fs = Some demo_root" by (simp add: demo_fs_def)
  have h2: "path_parts (path (demo_state ''/a/b/c'')) = [''a''] @ ''b'' # [''c'']"
    by (simp add: demo_state_def path_parts_def)
  have h3: "node_at demo_root [''a''] = Some (File (demo_uri ''/'') ''a'' ''sha-a'' (Some 2) None)"
    by (simp add: demo_root_def)
  from lookup_through_file [OF h1 h2 h3, of 1 demo_rest] h1 h2 h3 show ?thesis
    by blast
qed

text \<open>
  The claim as the specification states it (``not a directory'' rather than not found)
  fails: \<^verbatim>\<open>a\<close> is a file, and looking up \<^verbatim>\<open>/a/b\<close> gives FileNotFound.
\<close>

theorem lookup_through_file_counterexample:
  "follow_segments demo_root [''a''] = Some (File (demo_uri ''/'') ''a'' ''sha-a'' (Some 2) None) \<and>
   path_parts (path (demo_state ''/a/b'')) = [''a'', ''b''] \<and>
   lookup 1 demo_rest (demo_state ''/a/b'') False demo_fs =
     Some (Inl (FileNotFound (demo_uri ''/a/b'')), demo_fs) \<and>
   lookup 1 demo_rest (demo_state ''/a/b'') False demo_fs \<noteq>
     Some (Inl (FileNotADirectory (demo_uri ''/a/b'')), demo_fs)"
proof -
  have "lookup 1 demo_rest (demo_state ''/a/b'') False demo_fs =
     Some (Inl (FileNotFound (demo_uri ''/a/b'')), demo_fs)"
    by (simp add: lookup_def lookup_via_def child_of_def demo_defs)
  then show ?thesis
    by (simp add: follow_segments_def child_named_def demo_defs)
qed

subsection \<open>Kind mismatch and absence\<close>

text \<open>
  Claim C9, as the code has it. When silent, \<^verbatim>\<open>_lookupAsDirectory\<close> on a path that
  resolves to a file, \<^verbatim>\<open>_lookupAsFile\<close> on a path that resolves to a directory, and
  both on a path that does not exist all return \<^verbatim>\<open>undefined\<close>: a mismatch of kind
  cannot be told from absence. They differ only when not silent, where the mismatch
  gives FileNotADirectory or FileIsADirectory and absence gives FileNotFound.
\<close>

theorem silent_mismatch_is_undefined:
  assumes "root s = Some r"
    and "node_at r (path_parts (path stf)) = Some (File fu fn fsh fsz fd)"
    and "node_at r (path_parts (path std)) = Some (Directory du dn dsh dsz des)"
    and "path_parts (path stm) = pre @ seg # rest"
    and "node_at r pre = Some (Directory u n sh sz (Some m))" and "map_of m seg = None"
  shows "lookupAsDirectory k env stf True s = Some (Inr None, s) \<and>
         lookupAsDirectory k env stm True s = Some (Inr None, s) \<and>
         lookupAsFile k env std True s = Some (Inr None, s) \<and>
         lookupAsFile k env stm True s = Some (Inr None, s) \<and>
         lookupAsDirectory k env stf False s = Some (Inl (FileNotADirectory (uri stf)), s) \<and>
         lookupAsDirectory k env stm False s = Some (Inl (FileNotFound (uri stm)), s) \<and>
         lookupAsFile k env std False s = Some (Inl (FileIsADirectory (uri std)), s) \<and>
         lookupAsFile k env stm False s = Some (Inl (FileNotFound (uri stm)), s)"
proof -
  have f: "lookup_via (readDirectory k env) env stf silent s =
      Some (Inr (Some (path_parts (path stf), File fu fn fsh fsz fd)), s)" for silent
    using assms(1,2) by (rule lookup_via_found)
  have d: "lookup_via (readDirectory k env) env std silent s =
      Some (Inr (Some (path_parts (path std), Directory du dn dsh dsz des)), s)" for silent
    using assms(1,3) by (rule lookup_via_found)
  have m: "lookup_via (readDirectory k env) env stm silent s =
      (if \<not> silent then Some (Inl (FileNotFound (uri stm)), s) else Some (Inr None, s))" for silent
    using lookup_via_stuck [OF assms(1,4,5), where rd = "readDirectory k env" and env = env] assms(6)
    by (simp add: child_of_def)
  show ?thesis
    by (simp add: lookupAsDirectory_def lookupAsFile_def lookupAsDirectory_via_def
        lookupAsFile_via_def f d m)
qed

theorem silent_mismatch_is_undefined_witness:
  "root demo_fs = Some demo_root \<and>
   node_at demo_root (path_parts (path (demo_state ''/d/f''))) =
     Some (File (demo_uri ''/d'') ''f'' ''sha-f'' (Some 2) (Some [104, 105])) \<and>
   node_at demo_root (path_parts (path (demo_state ''/e''))) =
     Some (Directory (demo_uri ''/'') ''e'' ''sha-e'' (Some 0) (Some [])) \<and>
   path_parts (path (demo_state ''/e/zzz'')) = [''e''] @ ''zzz'' # [] \<and>
   node_at demo_root [''e''] = Some (Directory (demo_uri ''/'') ''e'' ''sha-e'' (Some 0) (Some [])) \<and>
   map_of ([] :: (string \<times> Entry) list) ''zzz'' = None \<and>
   lookupAsDirectory 1 demo_rest (demo_state ''/d/f'') True demo_fs = Some (Inr None, demo_fs) \<and>
   lookupAsDirectory 1 demo_rest (demo_state ''/e/zzz'') True demo_fs = Some (Inr None, demo_fs) \<and>
   lookupAsFile 1 demo_rest (demo_state ''/e'') True demo_fs = Some (Inr None, demo_fs) \<and>
   lookupAsFile 1 demo_rest (demo_state ''/e/zzz'') True demo_fs = Some (Inr None, demo_fs) \<and>
   lookupAsDirectory 1 demo_rest (demo_state ''/d/f'') False demo_fs =
     Some (Inl (FileNotADirectory (uri (demo_state ''/d/f''))), demo_fs) \<and>
   lookupAsDirectory 1 demo_rest (demo_state ''/e/zzz'') False demo_fs =
     Some (Inl (FileNotFound (uri (demo_state ''/e/zzz''))), demo_fs) \<and>
   lookupAsFile 1 demo_rest (demo_state ''/e'') False demo_fs =
     Some (Inl (FileIsADirectory (uri (demo_state ''/e''))), demo_fs) \<and>
   lookupAsFile 1 demo_rest (demo_state ''/e/zzz'') False demo_fs =
     Some (Inl (FileNotFound (uri (demo_state ''/e/zzz''))), demo_fs)"
proof -
  have h1: "root demo_fs = Some demo_root" by (simp add: demo_fs_def)
  have h2: "node_at demo_root (path_parts (path (demo_state ''/d/f''))) =
     Some (File (demo_uri ''/d'') ''f'' ''sha-f'' (Some 2) (Some [104, 105]))"
    by (simp add: demo_root_def demo_state_def path_parts_def)
  have h3: "node_at demo_root (path_parts (path (demo_state ''/e''))) =
     Some (Directory (demo_uri ''/'') ''e'' ''sha-e'' (Some 0) (Some []))"
    by (simp add: demo_root_def demo_state_def path_parts_def)
  have h4: "path_parts (path (demo_state ''/e/zzz'')) = [''e''] @ ''zzz'' # []"
    by (simp add: demo_state_def path_parts_def)
  have h5: "node_at demo_root [''e''] = Some (Directory (demo_uri ''/'') ''e'' ''sha-e'' (Some 0) (Some []))"
    by (simp add: demo_root_def)
  have h6: "map_of ([] :: (string \<times> Entry) list) ''zzz'' = None" by simp
  from silent_mismatch_is_undefined [OF h1 h2 h3 h4 h5 h6, of 1 demo_rest] h1 h2 h3 h4 h5 h6
  show ?thesis by blast
qed

text \<open>
  The claim as the specification states it fails: silently looking up the file \<^verbatim>\<open>/a\<close>
  as a directory, or the directory \<^verbatim>\<open>/d\<close> as a file, gives the very result of
  looking up \<^verbatim>\<open>/zzz\<close>, which does not exist.
\<close>

theorem silent_mismatch_counterexample:
  "follow_segments demo_root (path_parts ''/a'') = Some (File (demo_uri ''/'') ''a'' ''sha-a'' (Some 2) None) \<and>
   follow_segments demo_root (path_parts ''/d'') = Some (Directory (demo_uri ''/'') ''d'' ''sha-d'' (Some 0)
      (Some [(''f'', File (demo_uri ''/d'') ''f'' ''sha-f'' (Some 2) (Some [104, 105]))])) \<and>
   follow_segments demo_root (path_parts ''/zzz'') = None \<and>
   lookupAsDirectory 1 demo_rest (demo_state ''/a'') True demo_fs =
     lookupAsDirectory 1 demo_rest (demo_state ''/zzz'') True demo_fs \<and>
   lookupAsFile 1 demo_rest (demo_state ''/d'') True demo_fs =
     lookupAsFile 1 demo_rest (demo_state ''/zzz'') True demo_fs"
proof -
  have a: "lookupAsDirectory 1 demo_rest (demo_state ''/a'') True demo_fs = Some (Inr None, demo_fs)"
    by (simp add: lookup_defs demo_defs)
  have d: "lookupAsFile 1 demo_rest (demo_state ''/d'') True demo_fs = Some (Inr None, demo_fs)"
    by (simp add: lookup_defs demo_defs)
  have z1: "lookupAsDirectory 1 demo_rest (demo_state ''/zzz'') True demo_fs = Some (Inr None, demo_fs)"
    by (simp add: lookup_defs demo_defs)
  have z2: "lookupAsFile 1 demo_rest (demo_state ''/zzz'') True demo_fs = Some (Inr None, demo_fs)"
    by (simp add: lookup_defs demo_defs)
  from a d z1 z2 show ?thesis
    by (simp add: follow_segments_def child_named_def demo_root_def path_parts_def)
qed

subsection \<open>Directories are populated once\<close>

text \<open>
  Claim C2. A directory whose entries are present, also when they are empty, is not
  populated again. \<^verbatim>\<open>readDirectory\<close> on it returns the name and type of each entry
  and leaves the state, with its record of remote calls, as it was. A round of
  \<^verbatim>\<open>_lookup\<close> at such a directory gets the child from the entries without calling
  \<^verbatim>\<open>readDirectory\<close>, and so does a whole walk to a node that exists, whatever
  \<^verbatim>\<open>readDirectory\<close> would do. Listing an unpopulated directory for which the remote
  returns no children makes one remote call and stores the empty entries; listing it
  again returns the empty list from that state with no further call, under either
  strategy and whatever the remote would answer then.
\<close>

theorem populated_directory_not_read_again:
  assumes "authority u \<noteq> []" and "parseUri env u = Inr st" and "parseUri env' u = Inr st"
  shows
    "(deref s (path_parts (path st)) = Some (Directory du dn sh sz (Some m)) \<longrightarrow>
        readDirectory (Suc k) env u s = Some (Inr (getNameTypePairs (Some m)), s)) \<and>
     child_of rd env walked (Directory du dn sh sz (Some m)) part s = Some (Inr (map_of m part), s) \<and>
     (deref s (path_parts (path st2)) = Some e \<longrightarrow>
        lookup_via rd env st2 silent s = Some (Inr (Some (path_parts (path st2), e)), s)) \<and>
     (deref s (path_parts (path st)) = Some (Directory du dn sh sz None) \<and>
      (if isGraphQLEnabled env
       then apolloQuery env (owner st) (repo st) (branch st @ '':'' @ drop 1 (path st)) = Inr (Some [])
       else readGitHubDirectory env st = Inr (Some [])) \<longrightarrow>
        readDirectory (Suc k) env u s =
          Some (Inr [], assign_entries (path_parts (path st)) (Some [])
                          (record_call (population_call env st) s)) \<and>
        calls (assign_entries (path_parts (path st)) (Some [])
                 (record_call (population_call env st) s)) = calls s @ [population_call env st] \<and>
        readDirectory (Suc k') env' u
            (assign_entries (path_parts (path st)) (Some []) (record_call (population_call env st) s)) =
          Some (Inr [], assign_entries (path_parts (path st)) (Some [])
                          (record_call (population_call env st) s)))"
proof (intro conjI impI)
  assume "deref s (path_parts (path st)) = Some (Directory du dn sh sz (Some m))"
  from readDirectory_at_directory [OF assms(1,2) this]
  show "readDirectory (Suc k) env u s = Some (Inr (getNameTypePairs (Some m)), s)"
    by (simp add: readDirectory_parent_def)
next
  show "child_of rd env walked (Directory du dn sh sz (Some m)) part s = Some (Inr (map_of m part), s)"
    by (simp add: child_of_def)
next
  assume "deref s (path_parts (path st2)) = Some e"
  then show "lookup_via rd env st2 silent s = Some (Inr (Some (path_parts (path st2), e)), s)"
    by (rule lookup_via_deref)
next
  let ?s1 = "assign_entries (path_parts (path st)) (Some []) (record_call (population_call env st) s)"
  assume h: "deref s (path_parts (path st)) = Some (Directory du dn sh sz None) \<and>
      (if isGraphQLEnabled env
       then apolloQuery env (owner st) (repo st) (branch st @ '':'' @ drop 1 (path st)) = Inr (Some [])
       else readGitHubDirectory env st = Inr (Some []))"
  from readDirectory_at_directory [OF assms(1,2), of s du dn sh sz None k] h
  show "readDirectory (Suc k) env u s = Some (Inr [], ?s1)"
    by (simp add: readDirectory_parent_def getNameTypePairs_def population_call_def split: if_splits)
  show "calls ?s1 = calls s @ [population_call env st]" by simp
  from h have "deref ?s1 (path_parts (path st)) = Some (Directory du dn sh sz (Some []))"
    by (simp add: deref_assign_entries)
  from readDirectory_at_directory [OF assms(1,3) this]
  show "readDirectory (Suc k') env' u ?s1 = Some (Inr [], ?s1)"
    by (simp add: readDirectory_parent_def getNameTypePairs_def)
qed

theorem populated_directory_not_read_again_witness:
  "authority (demo_uri ''/d'') \<noteq> [] \<and>
   parseUri demo_down (demo_uri ''/d'') = Inr (demo_state ''/d'') \<and>
   deref demo_fs (path_parts (path (demo_state ''/d''))) =
     Some (Directory (demo_uri ''/'') ''d'' ''sha-d'' (Some 0)
       (Some [(''f'', File (demo_uri ''/d'') ''f'' ''sha-f'' (Some 2) (Some [104, 105]))])) \<and>
   readDirectory (Suc 0) demo_down (demo_uri ''/d'') demo_fs = Some (Inr [(''f'', FileType_File)], demo_fs) \<and>
   deref demo_fs (path_parts (path (demo_state ''/d/f''))) =
     Some (File (demo_uri ''/d'') ''f'' ''sha-f'' (Some 2) (Some [104, 105])) \<and>
   lookup_via (\<lambda>u s. None) demo_down (demo_state ''/d/f'') False demo_fs =
     Some (Inr (Some (path_parts (path (demo_state ''/d/f'')),
                 File (demo_uri ''/d'') ''f'' ''sha-f'' (Some 2) (Some [104, 105]))), demo_fs) \<and>
   authority (demo_uri ''/n'') \<noteq> [] \<and>
   parseUri demo_rest (demo_uri ''/n'') = Inr (demo_state ''/n'') \<and>
   parseUri demo_down (demo_uri ''/n'') = Inr (demo_state ''/n'') \<and>
   deref demo_fs (path_parts (path (demo_state ''/n''))) =
     Some (Directory (demo_uri ''/'') ''n'' ''sha-n'' (Some 0) None) \<and>
   \<not> isGraphQLEnabled demo_rest \<and> readGitHubDirectory demo_rest (demo_state ''/n'') = Inr (Some []) \<and>
   readDirectory (Suc 0) demo_rest (demo_uri ''/n'') demo_fs =
     Some (Inr [], assign_entries (path_parts (path (demo_state ''/n''))) (Some [])
                     (record_call (population_call demo_rest (demo_state ''/n'')) demo_fs)) \<and>
   calls (assign_entries (path_parts (path (demo_state ''/n''))) (Some [])
            (record_call (population_call demo_rest (demo_state ''/n'')) demo_fs)) =
     calls demo_fs @ [population_call demo_rest (demo_state ''/n'')] \<and>
   readDirectory (Suc 0) demo_down (demo_uri ''/n'')
       (assign_entries (path_parts (path (demo_state ''/n''))) (Some [])
          (record_call (population_call demo_rest (demo_state ''/n'')) demo_fs)) =
     Some (Inr [], assign_entries (path_parts (path (demo_state ''/n''))) (Some [])
                     (record_call (population_call demo_rest (demo_state ''/n'')) demo_fs)) \<and>
   authority (demo_uri ''/m'') \<noteq> [] \<and>
   parseUri demo_gql (demo_uri ''/m'') = Inr (demo_state ''/m'') \<and>
   parseUri demo_down (demo_uri ''/m'') = Inr (demo_state ''/m'') \<and>
   deref demo_fs (path_parts (path (demo_state ''/m''))) =
     Some (Directory (demo_uri ''/'') ''m'' ''sha-m'' (Some 0) None) \<and>
   isGraphQLEnabled demo_gql \<and>
   apolloQuery demo_gql (owner (demo_state ''/m'')) (repo (demo_state ''/m''))
     (branch (demo_state ''/m'') @ '':'' @ drop 1 (path (demo_state ''/m''))) = Inr (Some []) \<and>
   readDirectory (Suc 0) demo_gql (demo_uri ''/m'') demo_fs =
     Some (Inr [], assign_entries (path_parts (path (demo_state ''/m''))) (Some [])
                     (record_call (population_call demo_gql (demo_state ''/m'')) demo_fs)) \<and>
   readDirectory (Suc 0) demo_down (demo_uri ''/m'')
       (assign_entries (path_parts (path (demo_state ''/m''))) (Some [])
          (record_call (population_call demo_gql (demo_state ''/m'')) demo_fs)) =
     Some (Inr [], assign_entries (path_parts (path (demo_state ''/m''))) (Some [])
                     (record_call (population_call demo_gql (demo_state ''/m'')) demo_fs))"
proof -
  have a: "authority (demo_uri p) \<noteq> []" for p by (simp add: demo_uri_def)
  have p: "parseUri demo_down (demo_uri q) = Inr (demo_state q)"
    "parseUri demo_rest (demo_uri q) = Inr (demo_state q)"
    "parseUri demo_gql (demo_uri q) = Inr (demo_state q)" for q
    by (simp_all add: env_defs demo_uri_def)
  have d: "deref demo_fs (path_parts (path (demo_state ''/d''))) =
     Some (Directory (demo_uri ''/'') ''d'' ''sha-d'' (Some 0)
       (Some [(''f'', File (demo_uri ''/d'') ''f'' ''sha-f'' (Some 2) (Some [104, 105]))]))"
    by (simp add: deref_def demo_fs_def demo_root_def demo_state_def path_parts_def)
  have f: "deref demo_fs (path_parts (path (demo_state ''/d/f''))) =
     Some (File (demo_uri ''/d'') ''f'' ''sha-f'' (Some 2) (Some [104, 105]))"
    by (simp add: deref_def demo_fs_def demo_root_def demo_state_def path_parts_def)
  have n: "deref demo_fs (path_parts (path (demo_state ''/n''))) =
     Some (Directory (demo_uri ''/'') ''n'' ''sha-n'' (Some 0) None)"
    by (simp add: deref_def demo_fs_def demo_root_def demo_state_def path_parts_def)
  have m: "deref demo_fs (path_parts (path (demo_state ''/m''))) =
     Some (Directory (demo_uri ''/'') ''m'' ''sha-m'' (Some 0) None)"
    by (simp add: deref_def demo_fs_def demo_root_def demo_state_def path_parts_def)
  have rn: "\<not> isGraphQLEnabled demo_rest \<and> readGitHubDirectory demo_rest (demo_state ''/n'') = Inr (Some [])"
    by (simp add: demo_rest_def demo_state_def)
  have gm: "isGraphQLEnabled demo_gql \<and>
     apolloQuery demo_gql (owner (demo_state ''/m'')) (repo (demo_state ''/m''))
       (branch (demo_state ''/m'') @ '':'' @ drop 1 (path (demo_state ''/m''))) = Inr (Some [])"
    by (simp add: demo_gql_def demo_state_def)
  note t1 = populated_directory_not_read_again [OF a [of "''/d''"] p(1) [of "''/d''"] p(1) [of "''/d''"],
      where s = demo_fs and rd = "\<lambda>u s. None" and ?st2.0 = "demo_state ''/d/f''" and silent = False
        and k = 0]
  note t2 = populated_directory_not_read_again [OF a [of "''/n''"] p(2) [of "''/n''"] p(1) [of "''/n''"],
      where s = demo_fs and k = 0 and k' = 0]
  note t3 = populated_directory_not_read_again [OF a [of "''/m''"] p(3) [of "''/m''"] p(1) [of "''/m''"],
      where s = demo_fs and k = 0 and k' = 0]
  have g: "getNameTypePairs (Some [(''f'', File (demo_uri ''/d'') ''f'' ''sha-f'' (Some 2) (Some [104, 105]))]) =
      [(''f'', FileType_File)]"
    by (simp add: getNameTypePairs_def)
  from t1 d f g have c1: "readDirectory (Suc 0) demo_down (demo_uri ''/d'') demo_fs = Some (Inr [(''f'', FileType_File)], demo_fs)"
    and c2: "lookup_via (\<lambda>u s. None) demo_down (demo_state ''/d/f'') False demo_fs =
     Some (Inr (Some (path_parts (path (demo_state ''/d/f'')),
                 File (demo_uri ''/d'') ''f'' ''sha-f'' (Some 2) (Some [104, 105]))), demo_fs)"
    by auto
  from t2 n rn have c3: "readDirectory (Suc 0) demo_rest (demo_uri ''/n'') demo_fs =
     Some (Inr [], assign_entries (path_parts (path (demo_state ''/n''))) (Some [])
                     (record_call (population_call demo_rest (demo_state ''/n'')) demo_fs)) \<and>
   calls (assign_entries (path_parts (path (demo_state ''/n''))) (Some [])
            (record_call (population_call demo_rest (demo_state ''/n'')) demo_fs)) =
     calls demo_fs @ [population_call demo_rest (demo_state ''/n'')] \<and>
   readDirectory (Suc 0) demo_down (demo_uri ''/n'')
       (assign_entries (path_parts (path (demo_state ''/n''))) (Some [])
          (record_call (population_call demo_rest (demo_state ''/n'')) demo_fs)) =
     Some (Inr [], assign_entries (path_parts (path (demo_state ''/n''))) (Some [])
                     (record_call (population_call demo_rest (demo_state ''/n'')) demo_fs))"
    by presburger
  from t3 m gm have c4: "readDirectory (Suc 0) demo_gql (demo_uri ''/m'') demo_fs =
     Some (Inr [], assign_entries (path_parts (path (demo_state ''/m''))) (Some [])
                     (record_call (population_call demo_gql (demo_state ''/m'')) demo_fs)) \<and>
   readDirectory (Suc 0) demo_down (demo_uri ''/m'')
       (assign_entries (path_parts (path (demo_state ''/m''))) (Some [])
          (record_call (population_call demo_gql (demo_state ''/m'')) demo_fs)) =
     Some (Inr [], assign_entries (path_parts (path (demo_state ''/m''))) (Some [])
                     (record_call (population_call demo_gql (demo_state ''/m'')) demo_fs))"
    by presburger
  from a p d f n m rn gm c1 c2 c3 c4 show ?thesis by blast
qed

subsection \<open>File contents are fetched once\<close>

text \<open>
  Claim C3. \<^verbatim>\<open>readFile\<close> on a file whose data is present, also when it is the empty
  array, returns the data and leaves the state, with its record of remote calls, as it
  was. On a file whose data is null it makes one call to \<^verbatim>\<open>readGitHubFile\<close> with
  the sha of the file, stores the decoded bytes on the node and returns them; reading
  the file again from the state reached returns the stored bytes with no further call,
  whatever the remote would answer then. Two reads thus make one remote call.
\<close>

theorem readFile_fetches_once:
  assumes "authority u \<noteq> []" and "parseUri env u = Inr st" and "parseUri env' u = Inr st"
  shows
    "(deref s (path_parts (path st)) = Some (File fu fn sh sz (Some d)) \<longrightarrow>
        readFile k env u s = Some (Inr d, s)) \<and>
     (deref s (path_parts (path st)) = Some (File fu fn sh sz None) \<and>
      readGitHubFile env st sh = Inr content \<and> decodeBase64 env content = Inr d \<longrightarrow>
        readFile k env u s =
          Some (Inr d, assign_data (path_parts (path st)) (Some d) (record_call (ReadGitHubFile st sh) s)) \<and>
        calls (assign_data (path_parts (path st)) (Some d) (record_call (ReadGitHubFile st sh) s)) =
          calls s @ [ReadGitHubFile st sh] \<and>
        deref (assign_data (path_parts (path st)) (Some d) (record_call (ReadGitHubFile st sh) s))
            (path_parts (path st)) = Some (File fu fn sh sz (Some d)) \<and>
        readFile k' env' u
            (assign_data (path_parts (path st)) (Some d) (record_call (ReadGitHubFile st sh) s)) =
          Some (Inr d, assign_data (path_parts (path st)) (Some d) (record_call (ReadGitHubFile st sh) s)))"
proof (intro conjI impI)
  assume "deref s (path_parts (path st)) = Some (File fu fn sh sz (Some d))"
  from readFile_at_file [OF assms(1,2) this]
  show "readFile k env u s = Some (Inr d, s)"
    by (simp add: readFile_file_def)
next
  let ?s1 = "assign_data (path_parts (path st)) (Some d) (record_call (ReadGitHubFile st sh) s)"
  assume h: "deref s (path_parts (path st)) = Some (File fu fn sh sz None) \<and>
      readGitHubFile env st sh = Inr content \<and> decodeBase64 env content = Inr d"
  from readFile_at_file [OF assms(1,2), of s fu fn sh sz None k] h
  show "readFile k env u s = Some (Inr d, ?s1)"
    by (simp add: readFile_file_def)
  show "calls ?s1 = calls s @ [ReadGitHubFile st sh]" by simp
  from h show stored: "deref ?s1 (path_parts (path st)) = Some (File fu fn sh sz (Some d))"
    by (simp add: deref_assign_data)
  from readFile_at_file [OF assms(1,3) stored]
  show "readFile k' env' u ?s1 = Some (Inr d, ?s1)"
    by (simp add: readFile_file_def)
qed

theorem readFile_fetches_once_witness:
  "authority (demo_uri ''/z'') \<noteq> [] \<and>
   parseUri demo_down (demo_uri ''/z'') = Inr (demo_state ''/z'') \<and>
   deref demo_fs (path_parts (path (demo_state ''/z''))) =
     Some (File (demo_uri ''/'') ''z'' ''sha-z'' (Some 0) (Some [])) \<and>
   readFile 0 demo_down (demo_uri ''/z'') demo_fs = Some (Inr [], demo_fs) \<and>
   authority (demo_uri ''/a'') \<noteq> [] \<and>
   parseUri demo_rest (demo_uri ''/a'') = Inr (demo_state ''/a'') \<and>
   parseUri demo_down (demo_uri ''/a'') = Inr (demo_state ''/a'') \<and>
   deref demo_fs (path_parts (path (demo_state ''/a''))) =
     Some (File (demo_uri ''/'') ''a'' ''sha-a'' (Some 2) None) \<and>
   readGitHubFile demo_rest (demo_state ''/a'') ''sha-a'' = Inr ''aGk='' \<and>
   decodeBase64 demo_rest ''aGk='' = Inr [104, 105] \<and>
   readFile 0 demo_rest (demo_uri ''/a'') demo_fs =
     Some (Inr [104, 105], assign_data (path_parts (path (demo_state ''/a''))) (Some [104, 105])
                             (record_call (ReadGitHubFile (demo_state ''/a'') ''sha-a'') demo_fs)) \<and>
   calls (assign_data (path_parts (path (demo_state ''/a''))) (Some [104, 105])
            (record_call (ReadGitHubFile (demo_state ''/a'') ''sha-a'') demo_fs)) =
     calls demo_fs @ [ReadGitHubFile (demo_state ''/a'') ''sha-a''] \<and>
   readFile 0 demo_down (demo_uri ''/a'')
       (assign_data (path_parts (path (demo_state ''/a''))) (Some [104, 105])
          (record_call (ReadGitHubFile (demo_state ''/a'') ''sha-a'') demo_fs)) =
     Some (Inr [104, 105], assign_data (path_parts (path (demo_state ''/a''))) (Some [104, 105])
                             (record_call (ReadGitHubFile (demo_state ''/a'') ''sha-a'') demo_fs))"
proof -
  have a: "authority (demo_uri p) \<noteq> []" for p by (simp add: demo_uri_def)
  have p: "parseUri demo_down (demo_uri q) = Inr (demo_state q)"
    "parseUri demo_rest (demo_uri q) = Inr (demo_state q)" for q
    by (simp_all add: env_defs demo_uri_def)
  have z: "deref demo_fs (path_parts (path (demo_state ''/z''))) =
     Some (File (demo_uri ''/'') ''z'' ''sha-z'' (Some 0) (Some []))"
    by (simp add: deref_def demo_fs_def demo_root_def demo_state_def path_parts_def)
  have f: "deref demo_fs (path_parts (path (demo_state ''/a''))) =
     Some (File (demo_uri ''/'') ''a'' ''sha-a'' (Some 2) None)"
    by (simp add: deref_def demo_fs_def demo_root_def demo_state_def path_parts_def)
  have r: "readGitHubFile demo_rest (demo_state ''/a'') ''sha-a'' = Inr ''aGk='' \<and>
      decodeBase64 demo_rest ''aGk='' = Inr [104, 105]"
    by (simp add: demo_rest_def)
  note t1 = readFile_fetches_once [OF a [of "''/z''"] p(1) [of "''/z''"] p(1) [of "''/z''"],
      where s = demo_fs and k = 0]
  note t2 = readFile_fetches_once [OF a [of "''/a''"] p(2) [of "''/a''"] p(1) [of "''/a''"],
      where s = demo_fs and k = 0 and k' = 0]
  from t1 z have c1: "readFile 0 demo_down (demo_uri ''/z'') demo_fs = Some (Inr [], demo_fs)"
    by blast
  from t2 f r have c2: "readFile 0 demo_rest (demo_uri ''/a'') demo_fs =
     Some (Inr [104, 105], assign_data (path_parts (path (demo_state ''/a''))) (Some [104, 105])
                             (record_call (ReadGitHubFile (demo_state ''/a'') ''sha-a'') demo_fs)) \<and>
   calls (assign_data (path_parts (path (demo_state ''/a''))) (Some [104, 105])
            (record_call (ReadGitHubFile (demo_state ''/a'') ''sha-a'') demo_fs)) =
     calls demo_fs @ [ReadGitHubFile (demo_state ''/a'') ''sha-a''] \<and>
   readFile 0 demo_down (demo_uri ''/a'')
       (assign_data (path_parts (path (demo_state ''/a''))) (Some [104, 105])
          (record_call (ReadGitHubFile (demo_state ''/a'') ''sha-a'') demo_fs)) =
     Some (Inr [104, 105], assign_data (path_parts (path (demo_state ''/a''))) (Some [104, 105])
                             (record_call (ReadGitHubFile (demo_state ''/a'') ''sha-a'') demo_fs))"
    by blast
  from a p z f r c1 c2 show ?thesis by blast
qed

subsection \<open>Failures and the cache\<close>

text \<open>
  When every item of the tree is there, the REST branch enters them all: the listing is
  the items in order and the entries are the map they fold to.
\<close>

lemma set_entries_at_twice: "set_entries_at a x (set_entries_at a y r) = set_entries_at a x r"
proof (induction a arbitrary: r)
  case Nil
  show ?case by (cases r) simp_all
next
  case (Cons p ps)
  show ?case
  proof (cases r)
    case (File u n sh sz d)
    then show ?thesis by simp
  next
    case (Directory u n sh sz es)
    show ?thesis
    proof (cases es)
      case None
      with Directory show ?thesis by simp
    next
      case (Some m)
      with Directory show ?thesis
        by (cases "map_of m p") (simp_all add: update_conv' Cons.IH)
    qed
  qed
qed

lemma assign_entries_twice: "assign_entries a x (assign_entries a y s) = assign_entries a x s"
  by (cases "root s") (simp_all add: assign_entries_def set_entries_at_twice)

lemma rest_map_all:
  assumes "deref s a = Some (Directory du dn sh sz (Some m))"
  shows "rest_map u a (map Some items) out s =
    (Inr (out @ map (\<lambda>item. (item_path item, rest_fileType item)) items),
     assign_entries a
       (Some (foldl (\<lambda>m item. AList.update (item_path item) (rest_entry u item) m) m items)) s)"
  using assms
proof (induction items arbitrary: out s m)
  case Nil
  then obtain r where r: "root s = Some r" and at: "node_at r a = Some (Directory du dn sh sz (Some m))"
    by (auto simp: deref_def split: option.splits)
  have "set_entries_at a (Some m) r = r"
    using at
  proof (induction a arbitrary: r)
    case Nil
    then show ?case by simp
  next
    case (Cons p ps)
    from Cons.prems obtain u' n' s' z' m' c where r': "r = Directory u' n' s' z' (Some m')"
      and c: "map_of m' p = Some c" and at': "node_at c ps = Some (Directory du dn sh sz (Some m))"
      by (cases "(r, p # ps)" rule: node_at.cases) (auto split: option.splits)
    from Cons.IH [OF at'] r' c show ?case
      by (simp add: update_triv)
  qed
  with r show ?case by (simp add: assign_entries_def root_update_same)
next
  case (Cons item items)
  let ?m = "AList.update (item_path item) (rest_entry u item) m"
  let ?s = "assign_entries a (Some ?m) s"
  from Cons.prems have set: "entries_set a (item_path item) (rest_entry u item) s = ?s"
    by (simp add: entries_set_def)
  from Cons.prems have "deref ?s a = Some (Directory du dn sh sz (Some ?m))"
    by (rule deref_assign_entries)
  from Cons.IH [OF this, of "out @ [(item_path item, rest_fileType item)]"] set
  show ?case by (simp add: assign_entries_twice)
qed

text \<open>
  When an item of the tree is null or undefined, the items before it are entered all the
  same and stay entered when the callback throws.
\<close>

lemma rest_map_partial:
  assumes "deref s a = Some (Directory du dn sh sz (Some m))"
  shows "rest_map u a (map Some items @ None # rest) out s =
    (Inl TypeError,
     assign_entries a
       (Some (foldl (\<lambda>m item. AList.update (item_path item) (rest_entry u item) m) m items)) s)"
  using assms
proof (induction items arbitrary: out s m)
  case Nil
  with rest_map_all [OF Nil, of u "[]" "[]"] show ?case by simp
next
  case (Cons item items)
  let ?m = "AList.update (item_path item) (rest_entry u item) m"
  let ?s = "assign_entries a (Some ?m) s"
  from Cons.prems have set: "entries_set a (item_path item) (rest_entry u item) s = ?s"
    by (simp add: entries_set_def)
  from Cons.prems have "deref ?s a = Some (Directory du dn sh sz (Some ?m))"
    by (rule deref_assign_entries)
  from Cons.IH [OF this, of "out @ [(item_path item, rest_fileType item)]"] set
  show ?case by (simp add: assign_entries_twice)
qed

text \<open>
  A file whose content cannot be fetched or decoded keeps its data null, and the next
  \<^verbatim>\<open>readFile\<close> fetches again.
\<close>

lemma failed_content_fetch_is_retried:
  assumes "authority u \<noteq> []" and "parseUri env u = Inr st" and "parseUri env' u = Inr st"
    and "deref s (path_parts (path st)) = Some (File fu fn fsh fsz None)"
    and "readFile k env u s = Some (Inl e, s')"
  shows "s' = record_call (ReadGitHubFile st fsh) s"
    and "deref s' (path_parts (path st)) = Some (File fu fn fsh fsz None)"
    and "readFile k' env' u s' =
      Some (readFile_file env' st (path_parts (path st), File fu fn fsh fsz None) s')"
    and "calls (snd (readFile_file env' st (path_parts (path st), File fu fn fsh fsz None) s')) =
      calls s' @ [ReadGitHubFile st fsh]"
proof -
  from readFile_at_file [OF assms(1,2,4), of k] assms(5)
  have "readFile_file env st (path_parts (path st), File fu fn fsh fsz None) s = (Inl e, s')"
    by simp
  then show s': "s' = record_call (ReadGitHubFile st fsh) s"
    by (rule readFile_file_failure)
  with assms(4) show still: "deref s' (path_parts (path st)) = Some (File fu fn fsh fsz None)"
    by simp
  from assms(1,3) still
  show "readFile k' env' u s' =
      Some (readFile_file env' st (path_parts (path st), File fu fn fsh fsz None) s')"
    by (rule readFile_at_file)
  show "calls (snd (readFile_file env' st (path_parts (path st), File fu fn fsh fsz None) s')) =
      calls s' @ [ReadGitHubFile st fsh]"
    by (rule readFile_file_calls)
qed

text \<open>
  A directory keeps its entries null, and the next \<^verbatim>\<open>readDirectory\<close> asks the remote
  again, when the population fails under GraphQL (the query fails, or the response has
  no entries, which is the error FileNotADirectory) or when the REST call is rejected.
\<close>

lemma rejected_population_is_retried:
  assumes "authority u \<noteq> []" and "parseUri env u = Inr st" and "parseUri env' u = Inr st"
    and "deref s (path_parts (path st)) = Some (Directory du dn sh sz None)"
    and "readDirectory (Suc k) env u s = Some (Inl e, s')"
    and "isGraphQLEnabled env \<or> readGitHubDirectory env st = Inl e'"
  shows "s' = record_call (population_call env st) s"
    and "deref s' (path_parts (path st)) = Some (Directory du dn sh sz None)"
    and "readDirectory (Suc k') env' u s' =
      Some (readDirectory_parent env' u st (path_parts (path st), Directory du dn sh sz None) s')"
    and "calls (snd (readDirectory_parent env' u st (path_parts (path st), Directory du dn sh sz None) s')) =
      calls s' @ [population_call env' st]"
proof -
  from readDirectory_at_directory [OF assms(1,2,4), of k] assms(5)
  have run: "readDirectory_parent env u st (path_parts (path st), Directory du dn sh sz None) s = (Inl e, s')"
    by simp
  show s': "s' = record_call (population_call env st) s"
  proof (cases "isGraphQLEnabled env")
    case True
    from graphql_failure_leaves_state [OF True run] True show ?thesis
      by (simp add: population_call_def)
  next
    case False
    with assms(6) have "readGitHubDirectory env st = Inl e'" by simp
    from rest_rejection_leaves_state [OF False this, of u "path_parts (path st)" du dn sh sz s] run False
    show ?thesis by (simp add: population_call_def)
  qed
  with assms(4) show still: "deref s' (path_parts (path st)) = Some (Directory du dn sh sz None)"
    by simp
  from assms(1,3) still
  show "readDirectory (Suc k') env' u s' =
      Some (readDirectory_parent env' u st (path_parts (path st), Directory du dn sh sz None) s')"
    by (rule readDirectory_at_directory)
  show "calls (snd (readDirectory_parent env' u st (path_parts (path st), Directory du dn sh sz None) s')) =
      calls s' @ [population_call env' st]"
    unfolding population_call_def by (rule readDirectory_parent_calls)
qed

lemma graphql_without_entries:
  assumes "authority u \<noteq> []" and "parseUri env u = Inr st"
    and "deref s (path_parts (path st)) = Some (Directory du dn sh sz None)"
    and "isGraphQLEnabled env"
    and "apolloQuery env (owner st) (repo st) (branch st @ '':'' @ drop 1 (path st)) = Inr None"
  shows "readDirectory (Suc k) env u s =
    Some (Inl (FileNotADirectory u), record_call (population_call env st) s)"
  using readDirectory_at_directory [OF assms(1,2,3), of k] assms(4,5)
  by (simp add: readDirectory_parent_def population_call_def)

text \<open>
  Under REST, an answer that arrives without a tree fails the call and leaves the entries
  of the directory present and empty, whatever the state; the next \<^verbatim>\<open>readDirectory\<close>
  then lists nothing and asks no remote.
\<close>

lemma rest_answer_without_tree:
  assumes "authority u \<noteq> []" and "parseUri env u = Inr st" and "parseUri env' u = Inr st"
    and "deref s (path_parts (path st)) = Some (Directory du dn sh sz None)"
    and "\<not> isGraphQLEnabled env" and "readGitHubDirectory env st = Inr None"
  shows "readDirectory (Suc k) env u s =
      Some (Inl TypeError,
            assign_entries (path_parts (path st)) (Some []) (record_call (ReadGitHubDirectory st) s))"
    and "readDirectory (Suc k') env' u
        (assign_entries (path_parts (path st)) (Some []) (record_call (ReadGitHubDirectory st) s)) =
      Some (Inr [],
            assign_entries (path_parts (path st)) (Some []) (record_call (ReadGitHubDirectory st) s))"
proof -
  let ?s1 = "assign_entries (path_parts (path st)) (Some []) (record_call (ReadGitHubDirectory st) s)"
  from readDirectory_at_directory [OF assms(1,2,4), of k] assms(5,6)
  show "readDirectory (Suc k) env u s = Some (Inl TypeError, ?s1)"
    by (simp add: readDirectory_parent_def)
  from assms(4) have "deref ?s1 (path_parts (path st)) = Some (Directory du dn sh sz (Some []))"
    by (simp add: deref_assign_entries)
  from readDirectory_at_directory [OF assms(1,3) this, of k']
  show "readDirectory (Suc k') env' u ?s1 = Some (Inr [], ?s1)"
    by (simp add: readDirectory_parent_def getNameTypePairs_def)
qed


subsection \<open>The GraphQL strategy: inlined text and binary files\<close>

lemma item_entry_file:
  "gql_type item \<noteq> ''tree'' \<Longrightarrow>
   item_entry jp item u =
     File u (gql_name item) (gql_oid item) (item_byteSize item)
       (if item_isBinary item then None else Some (textEncoder_encode (item_text item)))"
  by (cases "(jp, item, u)" rule: item_entry.cases)
     (simp_all add: item_isBinary_def item_text_def item_byteSize_def)

lemma item_entry_tree:
  "gql_inlined dir = Some sub \<Longrightarrow>
   item_entry jp dir u =
     Directory u (gql_name dir) (gql_oid dir) (Some 0) (entriesToMap jp (Some sub) (jp u (gql_name dir)))"
  by (cases "(jp, dir, u)" rule: item_entry.cases)
     (simp_all add: gql_inlined_def split: if_splits)

lemma find_in_append:
  "List.find P (xs @ ys) = (case List.find P xs of None \<Rightarrow> List.find P ys | Some x \<Rightarrow> Some x)"
  by (induction xs) simp_all

lemma gql_named_Cons:
  "gql_named (x # xs) k =
     (case gql_named xs k of None \<Rightarrow> (if gql_name x = k then Some x else None) | Some it \<Rightarrow> Some it)"
  by (simp add: gql_named_def find_in_append split: option.splits)

lemma gql_named_Nil: "gql_named [] k = None"
  by (simp add: gql_named_def)

lemma gql_named_name: "gql_named items k = Some it \<Longrightarrow> gql_name it = k"
  by (auto simp: gql_named_def find_Some_iff)

lemma gql_named_absent: "k \<notin> gql_name ` set items \<Longrightarrow> gql_named items k = None"
  by (auto simp: gql_named_def find_None_iff)

text \<open>In a list that names each child once, every entry is the one its name leads to.\<close>

lemma gql_named_distinct:
  "distinct (map gql_name items) \<Longrightarrow> item \<in> set items \<Longrightarrow>
   gql_named items (gql_name item) = Some item"
proof (induction items)
  case Nil
  then show ?case by simp
next
  case (Cons x xs)
  show ?case
  proof (cases "item = x")
    case True
    with Cons.prems(1) have "gql_named xs (gql_name item) = None"
      by (simp add: gql_named_absent)
    with True show ?thesis by (simp add: gql_named_Cons)
  next
    case False
    with Cons.prems have "gql_named xs (gql_name item) = Some item"
      by (simp add: Cons.IH)
    then show ?thesis by (simp add: gql_named_Cons)
  qed
qed

lemma entries_forEach_named:
  "map_of (entries_forEach jp items u m) k =
     (case gql_named items k of None \<Rightarrow> map_of m k | Some it \<Rightarrow> Some (item_entry jp it u))"
  by (induction items arbitrary: m)
     (simp_all add: gql_named_Nil gql_named_Cons update_conv' split: option.splits)

text \<open>
  The tree that \<^verbatim>\<open>entriesToMap\<close> builds holds, at every relative path at which the
  response has an entry, the node made of that entry, with the URI joined along the way.
\<close>

lemma node_at_entriesToMap:
  "gql_at items rel = Some item \<Longrightarrow>
   node_at (Directory du dn sh sz (entriesToMap jp (Some items) u)) rel =
     Some (item_entry jp item (foldl jp u (butlast rel)))"
proof (induction items rel arbitrary: u du dn sh sz rule: gql_at.induct)
  case (1 items)
  then show ?case by simp
next
  case (2 items nm)
  then show ?case by (simp add: entries_forEach_named)
next
  case (3 items nm v va)
  from "3.prems" obtain dir sub where dir: "gql_named items nm = Some dir"
    and sub: "gql_inlined dir = Some sub" and at: "gql_at sub (v # va) = Some item"
    by (auto split: option.splits)
  from dir have nm: "gql_name dir = nm" by (rule gql_named_name)
  from "3.IH" [OF dir sub at, of u nm "gql_oid dir" "Some 0" "jp u nm"]
  have "node_at (Directory u nm (gql_oid dir) (Some 0) (entriesToMap jp (Some sub) (jp u nm))) (v # va) =
      Some (item_entry jp item (foldl jp (jp u nm) (butlast (v # va))))" .
  with dir nm item_entry_tree [OF sub, of jp u] show ?case
    by (simp add: entries_forEach_named)
qed

lemma deref_append:
  "deref s (a @ b) = (case deref s a of None \<Rightarrow> None | Some e \<Rightarrow> node_at e b)"
  by (simp add: deref_def node_at_append split: option.splits)

lemma deep_listing:
  assumes "authority u \<noteq> []" and "parseUri env u = Inr st"
    and "deref s (path_parts (path st)) = Some (Directory du dn sh sz None)"
    and "isGraphQLEnabled env"
    and "apolloQuery env (owner st) (repo st) (branch st @ '':'' @ drop 1 (path st)) = Inr (Some items)"
  shows "readDirectory (Suc k) env u s =
    Some (Inr (getNameTypePairs (entriesToMap (joinPath env) (Some items) u)),
          assign_entries (path_parts (path st)) (entriesToMap (joinPath env) (Some items) u)
            (record_call (population_call env st) s))"
  using readDirectory_at_directory [OF assms(1,2,3), of k] assms(4,5)
  by (simp add: readDirectory_parent_def population_call_def Let_def)

lemma deep_at:
  assumes "deref s a = Some (Directory du dn sh sz None)" and "gql_at items rel = Some item"
  shows "deref (assign_entries a (entriesToMap jp (Some items) u) (record_call c s)) (a @ rel) =
    Some (item_entry jp item (foldl jp u (butlast rel)))"
proof -
  from assms(1) have "deref (record_call c s) a = Some (Directory du dn sh sz None)" by simp
  then have "deref (assign_entries a (entriesToMap jp (Some items) u) (record_call c s)) a =
      Some (Directory du dn sh sz (entriesToMap jp (Some items) u))"
    by (rule deref_assign_entries)
  with node_at_entriesToMap [OF assms(2), of du dn sh sz jp u] show ?thesis
    by (simp add: deref_append)
qed

lemmas item_defs = demo_items_def demo_img_def demo_txt_def demo_sub_def demo_nul_def demo_lib_def
  demo_logo_def demo_note_def

lemma demo_listing:
  "readDirectory (Suc 0) demo_gql (demo_uri ''/n'') demo_fs =
     Some (Inr [(''img'', FileType_File), (''txt'', FileType_File), (''sub'', FileType_File),
                (''nul'', FileType_File), (''lib'', FileType_Directory)], demo_listed)"
proof -
  have a: "authority (demo_uri ''/n'') \<noteq> []" by (simp add: demo_uri_def)
  have p: "parseUri demo_gql (demo_uri ''/n'') = Inr (demo_state ''/n'')"
    by (simp add: demo_gql_def demo_uri_def)
  have n: "deref demo_fs (path_parts (path (demo_state ''/n''))) =
      Some (Directory (demo_uri ''/'') ''n'' ''sha-n'' (Some 0) None)"
    by (simp add: deref_def demo_fs_def demo_root_def demo_state_def path_parts_def)
  have g: "isGraphQLEnabled demo_gql" by (simp add: demo_gql_def)
  have q: "apolloQuery demo_gql (owner (demo_state ''/n'')) (repo (demo_state ''/n''))
      (branch (demo_state ''/n'') @ '':'' @ drop 1 (path (demo_state ''/n''))) = Inr (Some demo_items)"
    by (simp add: demo_gql_def demo_state_def)
  have l: "getNameTypePairs (entriesToMap (joinPath demo_gql) (Some demo_items) (demo_uri ''/n'')) =
      [(''img'', FileType_File), (''txt'', FileType_File), (''sub'', FileType_File),
       (''nul'', FileType_File), (''lib'', FileType_Directory)]"
    by (simp add: getNameTypePairs_def item_defs)
  have s: "assign_entries (path_parts (path (demo_state ''/n'')))
      (entriesToMap (joinPath demo_gql) (Some demo_items) (demo_uri ''/n''))
      (record_call (population_call demo_gql (demo_state ''/n'')) demo_fs) = demo_listed"
    by (simp add: demo_listed_def population_call_def demo_gql_def demo_state_def path_parts_def)
  from deep_listing [OF a p n g q, of 0] show ?thesis
    by (simp only: l s)
qed

text \<open>
  Claim C5. Let a directory whose entries are null be listed through GraphQL. For every
  entry of the bulk response, at any depth, that is not a tree and is flagged binary,
  the node created is a file whose data is null; the first \<^verbatim>\<open>readFile\<close> of it makes
  one call to \<^verbatim>\<open>readGitHubFile\<close> with the oid of the entry and, when that and the
  decoding succeed, stores the decoded bytes on the node and returns them. For an entry
  that is not a tree, is not flagged binary and has inlined text, the data of the node
  is the encoded text, and \<^verbatim>\<open>readFile\<close> returns it leaving the state, with its record
  of remote calls, as it was.
\<close>

theorem binary_file_falls_back_to_content_fetch:
  assumes "authority u \<noteq> []" and "parseUri env u = Inr st"
    and "deref s (path_parts (path st)) = Some (Directory du dn sh sz None)"
    and "isGraphQLEnabled env"
    and "apolloQuery env (owner st) (repo st) (branch st @ '':'' @ drop 1 (path st)) = Inr (Some items)"
    and "readDirectory (Suc k) env u s = Some (listing, s1)"
    and "gql_at items rel = Some item" and "gql_type item \<noteq> ''tree''"
    and "authority fu \<noteq> []" and "parseUri env' fu = Inr fst'"
    and "path_parts (path fst') = path_parts (path st) @ rel"
  shows
    "(item_isBinary item \<longrightarrow>
        item_entry jp item fu' = File fu' (gql_name item) (gql_oid item) (item_byteSize item) None \<and>
        deref s1 (path_parts (path fst')) =
          Some (File (foldl (joinPath env) u (butlast rel)) (gql_name item) (gql_oid item)
                  (item_byteSize item) None) \<and>
        (readGitHubFile env' fst' (gql_oid item) = Inr content \<and> decodeBase64 env' content = Inr d \<longrightarrow>
           readFile k' env' fu s1 =
             Some (Inr d, assign_data (path_parts (path fst')) (Some d)
                            (record_call (ReadGitHubFile fst' (gql_oid item)) s1)) \<and>
           calls (assign_data (path_parts (path fst')) (Some d)
                    (record_call (ReadGitHubFile fst' (gql_oid item)) s1)) =
             calls s1 @ [ReadGitHubFile fst' (gql_oid item)] \<and>
           deref (assign_data (path_parts (path fst')) (Some d)
                    (record_call (ReadGitHubFile fst' (gql_oid item)) s1)) (path_parts (path fst')) =
             Some (File (foldl (joinPath env) u (butlast rel)) (gql_name item) (gql_oid item)
                     (item_byteSize item) (Some d)))) \<and>
     (\<not> item_isBinary item \<and> item_text item = Text t \<longrightarrow>
        item_entry jp item fu' =
          File fu' (gql_name item) (gql_oid item) (item_byteSize item) (Some (map of_char t)) \<and>
        deref s1 (path_parts (path fst')) =
          Some (File (foldl (joinPath env) u (butlast rel)) (gql_name item) (gql_oid item)
                  (item_byteSize item) (Some (map of_char t))) \<and>
        readFile k' env' fu s1 = Some (Inr (map of_char t), s1))"
proof -
  let ?a = "path_parts (path st)"
  let ?u = "foldl (joinPath env) u (butlast rel)"
  from deep_listing [OF assms(1-5), of k] assms(6)
  have s1: "s1 = assign_entries ?a (entriesToMap (joinPath env) (Some items) u)
      (record_call (population_call env st) s)"
    by simp
  have node: "deref s1 (path_parts (path fst')) = Some (item_entry (joinPath env) item ?u)"
    unfolding s1 assms(11) using assms(3,7) by (rule deep_at)
  note ent = item_entry_file [OF assms(8)]
  show ?thesis
  proof (intro conjI impI)
    assume b: "item_isBinary item"
    with ent [of jp fu'] show "item_entry jp item fu' =
        File fu' (gql_name item) (gql_oid item) (item_byteSize item) None"
      by simp
    from b ent [of "joinPath env" ?u] node
    show absent: "deref s1 (path_parts (path fst')) =
        Some (File ?u (gql_name item) (gql_oid item) (item_byteSize item) None)"
      by simp
    let ?s2 = "assign_data (path_parts (path fst')) (Some d)
        (record_call (ReadGitHubFile fst' (gql_oid item)) s1)"
    show "calls ?s2 = calls s1 @ [ReadGitHubFile fst' (gql_oid item)]" by simp
    from absent show "deref ?s2 (path_parts (path fst')) =
        Some (File ?u (gql_name item) (gql_oid item) (item_byteSize item) (Some d))"
      by (simp add: deref_assign_data)
    assume "readGitHubFile env' fst' (gql_oid item) = Inr content \<and> decodeBase64 env' content = Inr d"
    with readFile_at_file [OF assms(9,10) absent, of k']
    show "readFile k' env' fu s1 = Some (Inr d, ?s2)"
      by (simp add: readFile_file_def)
  next
    assume t: "\<not> item_isBinary item \<and> item_text item = Text t"
    with ent [of jp fu'] show "item_entry jp item fu' =
        File fu' (gql_name item) (gql_oid item) (item_byteSize item) (Some (map of_char t))"
      by simp
    from t ent [of "joinPath env" ?u] node
    show present: "deref s1 (path_parts (path fst')) =
        Some (File ?u (gql_name item) (gql_oid item) (item_byteSize item) (Some (map of_char t)))"
      by simp
    from readFile_at_file [OF assms(9,10) present, of k']
    show "readFile k' env' fu s1 = Some (Inr (map of_char t), s1)"
      by (simp add: readFile_file_def)
  qed
qed

lemma demo_uris:
  "authority (demo_uri p) \<noteq> []"
  "parseUri demo_down (demo_uri p) = Inr (demo_state p)"
  "parseUri demo_rest (demo_uri p) = Inr (demo_state p)"
  "parseUri demo_gql (demo_uri p) = Inr (demo_state p)"
  by (simp_all add: env_defs demo_uri_def)

lemma demo_n:
  "deref demo_fs (path_parts (path (demo_state ''/n''))) =
     Some (Directory (demo_uri ''/'') ''n'' ''sha-n'' (Some 0) None)"
  "isGraphQLEnabled demo_gql"
  "apolloQuery demo_gql (owner (demo_state ''/n'')) (repo (demo_state ''/n''))
     (branch (demo_state ''/n'') @ '':'' @ drop 1 (path (demo_state ''/n''))) = Inr (Some demo_items)"
  by (simp_all add: deref_def demo_fs_def demo_root_def demo_state_def path_parts_def demo_gql_def)

theorem binary_file_falls_back_to_content_fetch_witness:
  "authority (demo_uri ''/n'') \<noteq> [] \<and>
   parseUri demo_gql (demo_uri ''/n'') = Inr (demo_state ''/n'') \<and>
   deref demo_fs (path_parts (path (demo_state ''/n''))) =
     Some (Directory (demo_uri ''/'') ''n'' ''sha-n'' (Some 0) None) \<and>
   isGraphQLEnabled demo_gql \<and>
   apolloQuery demo_gql (owner (demo_state ''/n'')) (repo (demo_state ''/n''))
     (branch (demo_state ''/n'') @ '':'' @ drop 1 (path (demo_state ''/n''))) = Inr (Some demo_items) \<and>
   readDirectory (Suc 0) demo_gql (demo_uri ''/n'') demo_fs =
     Some (Inr [(''img'', FileType_File), (''txt'', FileType_File), (''sub'', FileType_File),
                (''nul'', FileType_File), (''lib'', FileType_Directory)], demo_listed) \<and>
   gql_at demo_items [''lib'', ''logo''] = Some demo_logo \<and>
   gql_type demo_logo \<noteq> ''tree'' \<and> item_isBinary demo_logo \<and>
   authority (demo_uri ''/n/lib/logo'') \<noteq> [] \<and>
   parseUri demo_rest (demo_uri ''/n/lib/logo'') = Inr (demo_state ''/n/lib/logo'') \<and>
   path_parts (path (demo_state ''/n/lib/logo'')) =
     path_parts (path (demo_state ''/n'')) @ [''lib'', ''logo''] \<and>
   readGitHubFile demo_rest (demo_state ''/n/lib/logo'') (gql_oid demo_logo) = Inr ''aGk='' \<and>
   decodeBase64 demo_rest ''aGk='' = Inr [104, 105] \<and>
   deref demo_listed (path_parts (path (demo_state ''/n/lib/logo''))) =
     Some (File (foldl (joinPath demo_gql) (demo_uri ''/n'') (butlast [''lib'', ''logo'']))
             (gql_name demo_logo) (gql_oid demo_logo) (item_byteSize demo_logo) None) \<and>
   readFile 0 demo_rest (demo_uri ''/n/lib/logo'') demo_listed =
     Some (Inr [104, 105], assign_data (path_parts (path (demo_state ''/n/lib/logo''))) (Some [104, 105])
            (record_call (ReadGitHubFile (demo_state ''/n/lib/logo'') (gql_oid demo_logo)) demo_listed)) \<and>
   calls (assign_data (path_parts (path (demo_state ''/n/lib/logo''))) (Some [104, 105])
            (record_call (ReadGitHubFile (demo_state ''/n/lib/logo'') (gql_oid demo_logo)) demo_listed)) =
     calls demo_listed @ [ReadGitHubFile (demo_state ''/n/lib/logo'') (gql_oid demo_logo)] \<and>
   deref (assign_data (path_parts (path (demo_state ''/n/lib/logo''))) (Some [104, 105])
            (record_call (ReadGitHubFile (demo_state ''/n/lib/logo'') (gql_oid demo_logo)) demo_listed))
       (path_parts (path (demo_state ''/n/lib/logo''))) =
     Some (File (foldl (joinPath demo_gql) (demo_uri ''/n'') (butlast [''lib'', ''logo'']))
             (gql_name demo_logo) (gql_oid demo_logo) (item_byteSize demo_logo) (Some [104, 105])) \<and>
   gql_at demo_items [''img''] = Some demo_img \<and>
   gql_type demo_img \<noteq> ''tree'' \<and> item_isBinary demo_img \<and>
   authority (demo_uri ''/n/img'') \<noteq> [] \<and>
   parseUri demo_rest (demo_uri ''/n/img'') = Inr (demo_state ''/n/img'') \<and>
   path_parts (path (demo_state ''/n/img'')) = path_parts (path (demo_state ''/n'')) @ [''img''] \<and>
   deref demo_listed (path_parts (path (demo_state ''/n/img''))) =
     Some (File (foldl (joinPath demo_gql) (demo_uri ''/n'') (butlast [''img'']))
             (gql_name demo_img) (gql_oid demo_img) (item_byteSize demo_img) None) \<and>
   gql_at demo_items [''lib'', ''note''] = Some demo_note \<and>
   gql_type demo_note \<noteq> ''tree'' \<and>
   \<not> item_isBinary demo_note \<and> item_text demo_note = Text ''in'' \<and>
   authority (demo_uri ''/n/lib/note'') \<noteq> [] \<and>
   parseUri demo_down (demo_uri ''/n/lib/note'') = Inr (demo_state ''/n/lib/note'') \<and>
   path_parts (path (demo_state ''/n/lib/note'')) =
     path_parts (path (demo_state ''/n'')) @ [''lib'', ''note''] \<and>
   deref demo_listed (path_parts (path (demo_state ''/n/lib/note''))) =
     Some (File (foldl (joinPath demo_gql) (demo_uri ''/n'') (butlast [''lib'', ''note'']))
             (gql_name demo_note) (gql_oid demo_note) (item_byteSize demo_note)
             (Some (map of_char ''in''))) \<and>
   readFile 0 demo_down (demo_uri ''/n/lib/note'') demo_listed =
     Some (Inr (map of_char ''in''), demo_listed)"
proof -
  note a = demo_uris(1) and p = demo_uris(2-4) and n = demo_n(1) and g = demo_n(2) and q = demo_n(3)
  note l = demo_listing
  have i: "gql_at demo_items [''lib'', ''logo''] = Some demo_logo" "gql_type demo_logo \<noteq> ''tree''"
    "item_isBinary demo_logo"
    by (simp_all add: gql_named_def gql_inlined_def item_defs item_isBinary_def)
  have pi: "path_parts (path (demo_state ''/n/lib/logo'')) =
      path_parts (path (demo_state ''/n'')) @ [''lib'', ''logo'']"
    by (simp add: demo_state_def path_parts_def)
  have r: "readGitHubFile demo_rest (demo_state ''/n/lib/logo'') (gql_oid demo_logo) = Inr ''aGk='' \<and>
      decodeBase64 demo_rest ''aGk='' = Inr [104, 105]"
    by (simp add: demo_rest_def)
  have j: "gql_at demo_items [''img''] = Some demo_img" "gql_type demo_img \<noteq> ''tree''"
    "item_isBinary demo_img"
    by (simp_all add: gql_named_def item_defs item_isBinary_def)
  have pj: "path_parts (path (demo_state ''/n/img'')) = path_parts (path (demo_state ''/n'')) @ [''img'']"
    by (simp add: demo_state_def path_parts_def)
  have x: "gql_at demo_items [''lib'', ''note''] = Some demo_note" "gql_type demo_note \<noteq> ''tree''"
    by (simp_all add: gql_named_def gql_inlined_def item_defs)
  have xt: "\<not> item_isBinary demo_note \<and> item_text demo_note = Text ''in''"
    by (simp add: item_defs item_isBinary_def item_text_def)
  have px: "path_parts (path (demo_state ''/n/lib/note'')) =
      path_parts (path (demo_state ''/n'')) @ [''lib'', ''note'']"
    by (simp add: demo_state_def path_parts_def)
  note t1 = binary_file_falls_back_to_content_fetch
      [OF a p(3) n g q l i(1,2) a p(2) pi, where k' = 0 and content = "''aGk=''" and d = "[104, 105]"]
  note t2 = binary_file_falls_back_to_content_fetch [OF a p(3) n g q l j(1,2) a p(2) pj]
  note t3 = binary_file_falls_back_to_content_fetch
      [OF a p(3) n g q l x(1,2) a p(1) px, where k' = 0 and t = "''in''"]
  from t1 i(3) r have c1:
    "deref demo_listed (path_parts (path (demo_state ''/n/lib/logo''))) =
       Some (File (foldl (joinPath demo_gql) (demo_uri ''/n'') (butlast [''lib'', ''logo'']))
               (gql_name demo_logo) (gql_oid demo_logo) (item_byteSize demo_logo) None) \<and>
     readFile 0 demo_rest (demo_uri ''/n/lib/logo'') demo_listed =
       Some (Inr [104, 105], assign_data (path_parts (path (demo_state ''/n/lib/logo''))) (Some [104, 105])
              (record_call (ReadGitHubFile (demo_state ''/n/lib/logo'') (gql_oid demo_logo)) demo_listed)) \<and>
     calls (assign_data (path_parts (path (demo_state ''/n/lib/logo''))) (Some [104, 105])
              (record_call (ReadGitHubFile (demo_state ''/n/lib/logo'') (gql_oid demo_logo)) demo_listed)) =
       calls demo_listed @ [ReadGitHubFile (demo_state ''/n/lib/logo'') (gql_oid demo_logo)] \<and>
     deref (assign_data (path_parts (path (demo_state ''/n/lib/logo''))) (Some [104, 105])
              (record_call (ReadGitHubFile (demo_state ''/n/lib/logo'') (gql_oid demo_logo)) demo_listed))
         (path_parts (path (demo_state ''/n/lib/logo''))) =
       Some (File (foldl (joinPath demo_gql) (demo_uri ''/n'') (butlast [''lib'', ''logo'']))
               (gql_name demo_logo) (gql_oid demo_logo) (item_byteSize demo_logo) (Some [104, 105]))"
    by blast
  from t2 j(3) have c2:
    "deref demo_listed (path_parts (path (demo_state ''/n/img''))) =
       Some (File (foldl (joinPath demo_gql) (demo_uri ''/n'') (butlast [''img'']))
               (gql_name demo_img) (gql_oid demo_img) (item_byteSize demo_img) None)"
    by blast
  from t3 xt have c3:
    "deref demo_listed (path_parts (path (demo_state ''/n/lib/note''))) =
       Some (File (foldl (joinPath demo_gql) (demo_uri ''/n'') (butlast [''lib'', ''note'']))
               (gql_name demo_note) (gql_oid demo_note) (item_byteSize demo_note)
               (Some (map of_char ''in''))) \<and>
     readFile 0 demo_down (demo_uri ''/n/lib/note'') demo_listed =
       Some (Inr (map of_char ''in''), demo_listed)"
    by blast
  from a p n g q l i pi r j pj x xt px c1 c2 c3 show ?thesis by blast
qed




subsection \<open>Calls in flight are shared\<close>

lemma attach_more:
  "map_of (inflight d) key = Some (u0, waiting) \<Longrightarrow>
   map_of (inflight (foldl (\<lambda>q c. attach key c u q) d cs)) key = Some (u0, waiting @ cs) \<and>
   delivered (foldl (\<lambda>q c. attach key c u q) d cs) = delivered d"
proof (induction cs arbitrary: d waiting)
  case Nil
  then show ?case by simp
next
  case (Cons c cs)
  let ?d = "attach key c u d"
  from Cons.prems have "map_of (inflight ?d) key = Some (u0, (waiting @ [c]))" and "delivered ?d = delivered d"
    by (simp_all add: attach_def update_conv')
  with Cons.IH [of ?d "waiting @ [c]"] show ?case by simp
qed

lemma attach_all:
  assumes "map_of (inflight d) key = None"
  shows "map_of (inflight (foldl (\<lambda>q c. attach key c u q) d (c # cs))) key = Some (u, c # cs) \<and>
    delivered (foldl (\<lambda>q c. attach key c u q) d (c # cs)) = delivered d"
proof -
  let ?d = "attach key c u d"
  from assms have "map_of (inflight ?d) key = Some (u, [c])" and "delivered ?d = delivered d"
    by (simp_all add: attach_def update_conv')
  with attach_more [of ?d key u "[c]" u cs] show ?thesis by simp
qed

lemma settle_delivers:
  "map_of (inflight d) key = Some (u0, waiting) \<Longrightarrow>
   map_of (inflight (settle key outcome d)) key = None \<and>
   delivered (settle key outcome d) = delivered d @ map (\<lambda>caller. (caller, outcome)) waiting"
  by (simp add: settle_def delete_conv')

lemma calls_readDirectory:
  "foldl (call_readDirectory toString u) p cs =
   p\<lparr>dirs := foldl (\<lambda>q c. attach (toString u) c u q) (dirs p) cs\<rparr>"
  by (induction cs arbitrary: p) (simp_all add: call_readDirectory_def)

lemma calls_readFile:
  "foldl (call_readFile toString u) p cs =
   p\<lparr>files := foldl (\<lambda>q c. attach (toString u) c u q) (files p) cs\<rparr>"
  by (induction cs arbitrary: p) (simp_all add: call_readFile_def)

lemma readDirectory_coalesced:
  assumes "map_of (inflight (dirs p)) (toString u) = None"
    and "readDirectory k env u (fs p) = Some (outcome, s')"
  shows "fs (foldl (call_readDirectory toString u) p (c # cs)) = fs p"
    and "fs (settle_readDirectory k env (toString u) (foldl (call_readDirectory toString u) p (c # cs))) = s'"
    and "delivered (dirs (settle_readDirectory k env (toString u)
            (foldl (call_readDirectory toString u) p (c # cs)))) =
         delivered (dirs p) @ map (\<lambda>caller. (caller, outcome)) (c # cs)"
    and "map_of (inflight (dirs (settle_readDirectory k env (toString u)
            (foldl (call_readDirectory toString u) p (c # cs))))) (toString u) = None"
    and "files (settle_readDirectory k env (toString u)
            (foldl (call_readDirectory toString u) p (c # cs))) = files p"
proof -
  let ?p1 = "foldl (call_readDirectory toString u) p (c # cs)"
  have p1: "?p1 = p\<lparr>dirs := foldl (\<lambda>q c. attach (toString u) c u q) (dirs p) (c # cs)\<rparr>"
    by (rule calls_readDirectory)
  from attach_all [OF assms(1), of u c cs]
  have in1: "map_of (inflight (dirs ?p1)) (toString u) = Some (u, c # cs)"
    and d1: "delivered (dirs ?p1) = delivered (dirs p)"
    unfolding p1 by simp_all
  show "fs ?p1 = fs p" unfolding p1 by simp
  then have run: "readDirectory k env u (fs ?p1) = Some (outcome, s')"
    using assms(2) by simp
  have p2: "settle_readDirectory k env (toString u) ?p1 =
      ?p1\<lparr>fs := s', dirs := settle (toString u) outcome (dirs ?p1)\<rparr>"
    using in1 run by (simp add: settle_readDirectory_def)
  show "fs (settle_readDirectory k env (toString u) ?p1) = s'"
    unfolding p2 by simp
  from settle_delivers [OF in1, of outcome] d1
  show "delivered (dirs (settle_readDirectory k env (toString u) ?p1)) =
      delivered (dirs p) @ map (\<lambda>caller. (caller, outcome)) (c # cs)"
    and "map_of (inflight (dirs (settle_readDirectory k env (toString u) ?p1))) (toString u) = None"
    unfolding p2 by simp_all
  have "files ?p1 = files p" by (subst p1) simp
  then show "files (settle_readDirectory k env (toString u) ?p1) = files p"
    by (subst p2) simp
qed

lemma readFile_coalesced:
  assumes "map_of (inflight (files p)) (toString u) = None"
    and "readFile k env u (fs p) = Some (outcome, s')"
  shows "fs (foldl (call_readFile toString u) p (c # cs)) = fs p"
    and "fs (settle_readFile k env (toString u) (foldl (call_readFile toString u) p (c # cs))) = s'"
    and "delivered (files (settle_readFile k env (toString u)
            (foldl (call_readFile toString u) p (c # cs)))) =
         delivered (files p) @ map (\<lambda>caller. (caller, outcome)) (c # cs)"
    and "map_of (inflight (files (settle_readFile k env (toString u)
            (foldl (call_readFile toString u) p (c # cs))))) (toString u) = None"
    and "dirs (settle_readFile k env (toString u)
            (foldl (call_readFile toString u) p (c # cs))) = dirs p"
proof -
  let ?p1 = "foldl (call_readFile toString u) p (c # cs)"
  have p1: "?p1 = p\<lparr>files := foldl (\<lambda>q c. attach (toString u) c u q) (files p) (c # cs)\<rparr>"
    by (rule calls_readFile)
  from attach_all [OF assms(1), of u c cs]
  have in1: "map_of (inflight (files ?p1)) (toString u) = Some (u, c # cs)"
    and d1: "delivered (files ?p1) = delivered (files p)"
    unfolding p1 by simp_all
  show "fs ?p1 = fs p" unfolding p1 by simp
  then have run: "readFile k env u (fs ?p1) = Some (outcome, s')"
    using assms(2) by simp
  have p2: "settle_readFile k env (toString u) ?p1 =
      ?p1\<lparr>fs := s', files := settle (toString u) outcome (files ?p1)\<rparr>"
    using in1 run by (simp add: settle_readFile_def)
  show "fs (settle_readFile k env (toString u) ?p1) = s'"
    unfolding p2 by simp
  from settle_delivers [OF in1, of outcome] d1
  show "delivered (files (settle_readFile k env (toString u) ?p1)) =
      delivered (files p) @ map (\<lambda>caller. (caller, outcome)) (c # cs)"
    and "map_of (inflight (files (settle_readFile k env (toString u) ?p1))) (toString u) = None"
    unfolding p2 by simp_all
  have "dirs ?p1 = dirs p" by (subst p1) simp
  then show "dirs (settle_readFile k env (toString u) ?p1) = dirs p"
    by (subst p2) simp
qed

text \<open>
  Claim C8, on the registry modelled from the specification. Let no
  \<^verbatim>\<open>readDirectory\<close> be in flight for the key of a URI. When any number of callers
  call \<^verbatim>\<open>readDirectory\<close> with that URI before the operation settles, the state of
  the file system is untouched by the calls, the operation runs once (the state after
  the settlement is the state one run of \<^verbatim>\<open>readDirectory\<close> reaches, so the remote is
  asked as often as one run asks it), every caller receives the outcome of that run, be
  it a listing or an error, and the entry is cleared. A call after the settlement starts
  the operation afresh: it runs again from the state reached and the new caller receives
  the new outcome. The same holds for \<^verbatim>\<open>readFile\<close>.
\<close>

theorem concurrent_calls_share_one_fetch:
  "(map_of (inflight (dirs p)) (toString u) = None \<and>
    readDirectory k env u (fs p) = Some (outcome, s') \<and>
    readDirectory k' env' u s' = Some (outcome', s'') \<longrightarrow>
      fs (foldl (call_readDirectory toString u) p (c # cs)) = fs p \<and>
      fs (settle_readDirectory k env (toString u) (foldl (call_readDirectory toString u) p (c # cs))) = s' \<and>
      delivered (dirs (settle_readDirectory k env (toString u)
          (foldl (call_readDirectory toString u) p (c # cs)))) =
        delivered (dirs p) @ map (\<lambda>caller. (caller, outcome)) (c # cs) \<and>
      map_of (inflight (dirs (settle_readDirectory k env (toString u)
          (foldl (call_readDirectory toString u) p (c # cs))))) (toString u) = None \<and>
      fs (settle_readDirectory k' env' (toString u)
            (call_readDirectory toString u
               (settle_readDirectory k env (toString u) (foldl (call_readDirectory toString u) p (c # cs)))
               c')) = s'' \<and>
      delivered (dirs (settle_readDirectory k' env' (toString u)
            (call_readDirectory toString u
               (settle_readDirectory k env (toString u) (foldl (call_readDirectory toString u) p (c # cs)))
               c'))) =
        delivered (dirs p) @ map (\<lambda>caller. (caller, outcome)) (c # cs) @ [(c', outcome')]) \<and>
   (map_of (inflight (files p)) (toString u) = None \<and>
    readFile k env u (fs p) = Some (content, t') \<and>
    readFile k' env' u t' = Some (content', t'') \<longrightarrow>
      fs (foldl (call_readFile toString u) p (c # cs)) = fs p \<and>
      fs (settle_readFile k env (toString u) (foldl (call_readFile toString u) p (c # cs))) = t' \<and>
      delivered (files (settle_readFile k env (toString u)
          (foldl (call_readFile toString u) p (c # cs)))) =
        delivered (files p) @ map (\<lambda>caller. (caller, content)) (c # cs) \<and>
      map_of (inflight (files (settle_readFile k env (toString u)
          (foldl (call_readFile toString u) p (c # cs))))) (toString u) = None \<and>
      fs (settle_readFile k' env' (toString u)
            (call_readFile toString u
               (settle_readFile k env (toString u) (foldl (call_readFile toString u) p (c # cs)))
               c')) = t'' \<and>
      delivered (files (settle_readFile k' env' (toString u)
            (call_readFile toString u
               (settle_readFile k env (toString u) (foldl (call_readFile toString u) p (c # cs)))
               c'))) =
        delivered (files p) @ map (\<lambda>caller. (caller, content)) (c # cs) @ [(c', content')])"
proof (intro conjI impI)
  let ?p2 = "settle_readDirectory k env (toString u) (foldl (call_readDirectory toString u) p (c # cs))"
  assume h: "map_of (inflight (dirs p)) (toString u) = None \<and>
    readDirectory k env u (fs p) = Some (outcome, s') \<and>
    readDirectory k' env' u s' = Some (outcome', s'')"
  then have free: "map_of (inflight (dirs p)) (toString u) = None"
    and run: "readDirectory k env u (fs p) = Some (outcome, s')" by simp_all
  note first = readDirectory_coalesced [where toString = toString and u = u and c = c and cs = cs, OF free run]
  show "fs (foldl (call_readDirectory toString u) p (c # cs)) = fs p" by (rule first(1))
  show "fs ?p2 = s'" by (rule first(2))
  show "delivered (dirs ?p2) = delivered (dirs p) @ map (\<lambda>caller. (caller, outcome)) (c # cs)"
    by (rule first(3))
  show "map_of (inflight (dirs ?p2)) (toString u) = None" by (rule first(4))
  from h first(2) have again: "readDirectory k' env' u (fs ?p2) = Some (outcome', s'')" by simp
  note later = readDirectory_coalesced [where toString = toString and u = u and c = c' and cs = "[]",
      OF first(4) again]
  from later(2) show "fs (settle_readDirectory k' env' (toString u) (call_readDirectory toString u ?p2 c')) = s''"
    by simp
  from later(3) first(3)
  show "delivered (dirs (settle_readDirectory k' env' (toString u) (call_readDirectory toString u ?p2 c'))) =
      delivered (dirs p) @ map (\<lambda>caller. (caller, outcome)) (c # cs) @ [(c', outcome')]"
    by simp
next
  let ?p2 = "settle_readFile k env (toString u) (foldl (call_readFile toString u) p (c # cs))"
  assume h: "map_of (inflight (files p)) (toString u) = None \<and>
    readFile k env u (fs p) = Some (content, t') \<and>
    readFile k' env' u t' = Some (content', t'')"
  then have free: "map_of (inflight (files p)) (toString u) = None"
    and run: "readFile k env u (fs p) = Some (content, t')" by simp_all
  note first = readFile_coalesced [where toString = toString and u = u and c = c and cs = cs, OF free run]
  show "fs (foldl (call_readFile toString u) p (c # cs)) = fs p" by (rule first(1))
  show "fs ?p2 = t'" by (rule first(2))
  show "delivered (files ?p2) = delivered (files p) @ map (\<lambda>caller. (caller, content)) (c # cs)"
    by (rule first(3))
  show "map_of (inflight (files ?p2)) (toString u) = None" by (rule first(4))
  from h first(2) have again: "readFile k' env' u (fs ?p2) = Some (content', t'')" by simp
  note later = readFile_coalesced [where toString = toString and u = u and c = c' and cs = "[]",
      OF first(4) again]
  from later(2) show "fs (settle_readFile k' env' (toString u) (call_readFile toString u ?p2 c')) = t''"
    by simp
  from later(3) first(3)
  show "delivered (files (settle_readFile k' env' (toString u) (call_readFile toString u ?p2 c'))) =
      delivered (files p) @ map (\<lambda>caller. (caller, content)) (c # cs) @ [(c', content')]"
    by simp
qed

theorem concurrent_calls_share_one_fetch_witness:
  "map_of (inflight (dirs demo_provider)) (demo_toString (demo_uri ''/n'')) = None \<and>
   readDirectory (Suc 0) demo_down (demo_uri ''/n'') (fs demo_provider) =
     Some (Inl (RemoteFailure ''down''), record_call (ReadGitHubDirectory (demo_state ''/n'')) demo_fs) \<and>
   readDirectory (Suc 0) demo_rest (demo_uri ''/n'')
       (record_call (ReadGitHubDirectory (demo_state ''/n'')) demo_fs) =
     Some (Inr [], assign_entries [''n''] (Some [])
       (record_call (ReadGitHubDirectory (demo_state ''/n''))
          (record_call (ReadGitHubDirectory (demo_state ''/n'')) demo_fs))) \<and>
   fs (settle_readDirectory (Suc 0) demo_down (demo_toString (demo_uri ''/n''))
        (foldl (call_readDirectory demo_toString (demo_uri ''/n'')) demo_provider (1 # [2, 3]))) =
     record_call (ReadGitHubDirectory (demo_state ''/n'')) demo_fs \<and>
   delivered (dirs (settle_readDirectory (Suc 0) demo_down (demo_toString (demo_uri ''/n''))
        (foldl (call_readDirectory demo_toString (demo_uri ''/n'')) demo_provider (1 # [2, 3])))) =
     delivered (dirs demo_provider) @ map (\<lambda>caller. (caller, Inl (RemoteFailure ''down''))) (1 # [2, 3]) \<and>
   map_of (inflight (dirs (settle_readDirectory (Suc 0) demo_down (demo_toString (demo_uri ''/n''))
        (foldl (call_readDirectory demo_toString (demo_uri ''/n'')) demo_provider (1 # [2, 3])))))
       (demo_toString (demo_uri ''/n'')) = None \<and>
   delivered (dirs (settle_readDirectory (Suc 0) demo_rest (demo_toString (demo_uri ''/n''))
        (call_readDirectory demo_toString (demo_uri ''/n'')
           (settle_readDirectory (Suc 0) demo_down (demo_toString (demo_uri ''/n''))
              (foldl (call_readDirectory demo_toString (demo_uri ''/n'')) demo_provider (1 # [2, 3])))
           4))) =
     delivered (dirs demo_provider) @ map (\<lambda>caller. (caller, Inl (RemoteFailure ''down''))) (1 # [2, 3]) @
       [(4, Inr [])] \<and>
   map_of (inflight (files demo_provider)) (demo_toString (demo_uri ''/a'')) = None \<and>
   readFile 0 demo_down (demo_uri ''/a'') (fs demo_provider) =
     Some (Inl (RemoteFailure ''down''), record_call (ReadGitHubFile (demo_state ''/a'') ''sha-a'') demo_fs) \<and>
   readFile 0 demo_rest (demo_uri ''/a'')
       (record_call (ReadGitHubFile (demo_state ''/a'') ''sha-a'') demo_fs) =
     Some (Inr [104, 105], assign_data [''a''] (Some [104, 105])
       (record_call (ReadGitHubFile (demo_state ''/a'') ''sha-a'')
          (record_call (ReadGitHubFile (demo_state ''/a'') ''sha-a'') demo_fs))) \<and>
   fs (settle_readFile 0 demo_down (demo_toString (demo_uri ''/a''))
        (foldl (call_readFile demo_toString (demo_uri ''/a'')) demo_provider (1 # [2]))) =
     record_call (ReadGitHubFile (demo_state ''/a'') ''sha-a'') demo_fs \<and>
   delivered (files (settle_readFile 0 demo_rest (demo_toString (demo_uri ''/a''))
        (call_readFile demo_toString (demo_uri ''/a'')
           (settle_readFile 0 demo_down (demo_toString (demo_uri ''/a''))
              (foldl (call_readFile demo_toString (demo_uri ''/a'')) demo_provider (1 # [2])))
           3))) =
     delivered (files demo_provider) @ map (\<lambda>caller. (caller, Inl (RemoteFailure ''down''))) (1 # [2]) @
       [(3, Inr [104, 105])]"
proof -
  let ?dn = "Directory (demo_uri ''/'') ''n'' ''sha-n'' (Some 0) None"
  let ?fa = "File (demo_uri ''/'') ''a'' ''sha-a'' (Some 2) None"
  let ?sn = "record_call (ReadGitHubDirectory (demo_state ''/n'')) demo_fs"
  let ?sa = "record_call (ReadGitHubFile (demo_state ''/a'') ''sha-a'') demo_fs"
  have a: "authority (demo_uri p) \<noteq> []" for p by (simp add: demo_uri_def)
  have p: "parseUri demo_down (demo_uri q) = Inr (demo_state q)"
    "parseUri demo_rest (demo_uri q) = Inr (demo_state q)" for q
    by (simp_all add: env_defs demo_uri_def)
  have pn: "path_parts (path (demo_state ''/n'')) = [''n'']"
    and pa: "path_parts (path (demo_state ''/a'')) = [''a'']"
    by (simp_all add: demo_state_def path_parts_def)
  have n: "deref demo_fs (path_parts (path (demo_state ''/n''))) = Some ?dn"
    by (simp add: deref_def demo_fs_def demo_root_def demo_state_def path_parts_def)
  have f: "deref demo_fs (path_parts (path (demo_state ''/a''))) = Some ?fa"
    by (simp add: deref_def demo_fs_def demo_root_def demo_state_def path_parts_def)
  have f0: "fs demo_provider = demo_fs" by (simp add: demo_provider_def)
  have i0: "map_of (inflight (dirs demo_provider)) (demo_toString (demo_uri ''/n'')) = None"
    "map_of (inflight (files demo_provider)) (demo_toString (demo_uri ''/a'')) = None"
    by (simp_all add: demo_provider_def)
  have d1: "readDirectory (Suc 0) demo_down (demo_uri ''/n'') (fs demo_provider) =
      Some (Inl (RemoteFailure ''down''), ?sn)"
    using readDirectory_at_directory [OF a p(1) n, of 0]
    by (simp add: f0 readDirectory_parent_def demo_down_def)
  from n have n': "deref ?sn (path_parts (path (demo_state ''/n''))) = Some ?dn" by simp
  have d2: "readDirectory (Suc 0) demo_rest (demo_uri ''/n'') ?sn =
      Some (Inr [], assign_entries [''n''] (Some []) (record_call (ReadGitHubDirectory (demo_state ''/n'')) ?sn))"
    using readDirectory_at_directory [OF a p(2) n', of 0]
    by (simp add: readDirectory_parent_def demo_rest_def pn) (simp add: demo_state_def)
  have r1: "readFile 0 demo_down (demo_uri ''/a'') (fs demo_provider) =
      Some (Inl (RemoteFailure ''down''), ?sa)"
    using readFile_at_file [OF a p(1) f, of 0]
    by (simp add: f0 readFile_file_def demo_down_def)
  from f have f': "deref ?sa (path_parts (path (demo_state ''/a''))) = Some ?fa" by simp
  have r2: "readFile 0 demo_rest (demo_uri ''/a'') ?sa =
      Some (Inr [104, 105], assign_data [''a''] (Some [104, 105])
        (record_call (ReadGitHubFile (demo_state ''/a'') ''sha-a'') ?sa))"
    using readFile_at_file [OF a p(2) f', of 0]
    by (simp add: readFile_file_def demo_rest_def pa)
  note t1 = concurrent_calls_share_one_fetch [where p = demo_provider and toString = demo_toString
      and u = "demo_uri ''/n''" and k = "Suc 0" and env = demo_down and k' = "Suc 0" and env' = demo_rest
      and c = 1 and cs = "[2, 3]" and c' = 4, THEN conjunct1, rule_format, OF conjI [OF i0(1) conjI [OF d1 d2]]]
  note t2 = concurrent_calls_share_one_fetch [where p = demo_provider and toString = demo_toString
      and u = "demo_uri ''/a''" and k = 0 and env = demo_down and k' = 0 and env' = demo_rest
      and c = 1 and cs = "[2]" and c' = 3, THEN conjunct2, rule_format, OF conjI [OF i0(2) conjI [OF r1 r2]]]
  from i0 d1 d2 r1 r2 t1 t2 show ?thesis by blast
qed

end
